theory Spec2Isabelle
  imports Complex_Main "HOL-Library.Word"
begin

section \<open>Numbers, vectors and uniforms\<close>

text \<open>
  The layer computes with JavaScript numbers on the CPU and with single-precision floats in
  the compute kernels. Both are embedded as \<open>real\<close>: the arithmetic is the ideal one, without
  rounding, NaN or infinities. The one exception is the density that the public setter takes
  and the particle count it is mapped to: the setter compares counts with \<open>===\<close>, which tells
  NaN apart, so these two are embedded with their NaN (types \<open>number\<close> and \<open>count\<close> below).
  The particle index and the salts added to it are unsigned 32-bit integers (\<open>uint\<close> in
  TSL), embedded as \<open>32 word\<close>, so that the addition wraps.

  The function \<open>hash\<close> of three/tsl is not part of the repository. Every definition that calls
  it takes it as the parameter \<open>hash\<close>; what a theorem needs of it is a hypothesis.
  \<open>Math.random\<close> is a parameter too: \<open>rnd k\<close> is the value of the \<open>k\<close>-th call made while a
  particle system is built.
\<close>

type_synonym u32 = "32 word"
type_synonym hash_fn = "u32 \<Rightarrow> real"
type_synonym random_fn = "nat \<Rightarrow> real"

text \<open>A 4x4 matrix as the 16 numbers of its column-major array (\<open>Matrix4.fromArray\<close>).\<close>
type_synonym mat4 = "nat \<Rightarrow> real"

record vec3 =
  v3x :: real
  v3y :: real
  v3z :: real

record vec4 =
  v4x :: real
  v4y :: real
  v4z :: real
  v4w :: real

text \<open>The uniform fields of class \<open>SnowGPU\<close>, each with its initial value in \<open>uniforms0\<close>.\<close>
record uniforms =
  uCenter :: "real \<times> real"
  uHalfSpan :: real
  uAltSpan :: real
  uRadius :: real
  uFallSpeed :: real
  uWindX :: real
  uWindY :: real
  uOpacity :: real
  uColor :: "real \<times> real \<times> real"
  uFogOpacity :: real

definition uniforms0 :: uniforms where
  "uniforms0 = \<lparr>uCenter = (0.5, 0.5), uHalfSpan = 0.005, uAltSpan = 0.0025,
     uRadius = 1 / 1000000, uFallSpeed = 0, uWindX = 0, uWindY = 0, uOpacity = 0.8,
     uColor = (1, 1, 1), uFogOpacity = 0.08\<rparr>"

text \<open>A JavaScript number as the density setter receives it: a finite value, one of the
  two infinities, or NaN.\<close>
datatype number = Finite real | PosInfinity | NegInfinity | NaN

text \<open>The particle count, a number that is an integer or NaN: \<open>Math.round\<close> of a
  finite value, or of NaN.\<close>
datatype count = Count int | NaNCount

text \<open>\<open>a === b\<close> on counts: NaN is equal to nothing, itself included.\<close>
fun strict_eq :: "count \<Rightarrow> count \<Rightarrow> bool" where
  "strict_eq (Count a) (Count b) = (a = b)"
| "strict_eq a b = False"

text \<open>The number of elements of a typed array made with the count as its length (NaN
  gives the empty array), which is the number of particles that a buffer holds. A count
  is never negative: it is the default, or a rounded value from \<open>MIN_PARTICLE_COUNT\<close> to
  \<open>MAX_PARTICLE_COUNT\<close>, or NaN.\<close>
fun count_len :: "count \<Rightarrow> nat" where
  "count_len (Count n) = nat n"
| "count_len NaNCount = 0"

definition DEFAULT_PARTICLE_COUNT :: int where
  "DEFAULT_PARTICLE_COUNT = 100000"

definition MIN_PARTICLE_COUNT :: int where
  "MIN_PARTICLE_COUNT = 10000"

definition MAX_PARTICLE_COUNT :: int where
  "MAX_PARTICLE_COUNT = 200000"

section \<open>The compute kernels\<close>

text \<open>\<open>uint(Math.floor(Math.random() * 0xffffff))\<close>, for the draw \<open>r\<close> of \<open>Math.random\<close>.\<close>
definition randUint :: "real \<Rightarrow> u32" where
  "randUint r = word_of_int \<lfloor>r * 0xffffff\<rfloor>"

text \<open>
  A compute pipeline is the closure built by \<open>_buildParticleSystem\<close>: the two storage buffers
  it captured (as addresses in GPU memory), the dispatch size \<open>N\<close>, and the salts, which the
  JavaScript closure draws once with \<open>Math.random\<close> and which are constants of the shader.
\<close>
record ComputeInit =
  ci_pos :: nat
  ci_vel :: nat
  ci_count :: nat
  ci_salt_ry :: u32
  ci_salt_rz :: u32
  ci_salt_rs :: u32

record ComputeUpdate =
  cu_pos :: nat
  cu_vel :: nat
  cu_count :: nat
  cu_salt_rx2 :: u32
  cu_salt_ry2 :: u32

text \<open>The salts that \<open>initFn\<close> adds to \<open>instanceIndex\<close> for \<open>rx\<close>, \<open>ry\<close>, \<open>rz\<close> and \<open>rs\<close>:
  nothing is added for \<open>rx\<close>.\<close>
definition initSalts :: "ComputeInit \<Rightarrow> u32 list" where
  "initSalts k = [0, ci_salt_ry k, ci_salt_rz k, ci_salt_rs k]"

text \<open>The four hashed draws of \<open>initFn\<close> for one particle.\<close>
definition initRands :: "hash_fn \<Rightarrow> ComputeInit \<Rightarrow> u32 \<Rightarrow> real list" where
  "initRands hash k instanceIndex =
     [hash instanceIndex,
      hash (instanceIndex + ci_salt_ry k),
      hash (instanceIndex + ci_salt_rz k),
      hash (instanceIndex + ci_salt_rs k)]"

text \<open>\<open>initFn\<close>: the new values of \<open>posBuffer[instanceIndex]\<close> and \<open>velBuffer[instanceIndex]\<close>.
  Every component of both elements is assigned, so the old values do not matter.\<close>
definition initFn :: "hash_fn \<Rightarrow> ComputeInit \<Rightarrow> uniforms \<Rightarrow> u32 \<Rightarrow> vec3 \<times> vec4" where
  "initFn hash k u instanceIndex =
     (let rx = hash instanceIndex;
          ry = hash (instanceIndex + ci_salt_ry k);
          rz = hash (instanceIndex + ci_salt_rz k);
          rs = hash (instanceIndex + ci_salt_rs k)
      in (\<lparr>v3x = fst (uCenter u) + (rx * (uHalfSpan u * 2) - uHalfSpan u),
           v3y = snd (uCenter u) + (ry * (uHalfSpan u * 2) - uHalfSpan u),
           v3z = rz * uAltSpan u\<rparr>,
          \<lparr>v4x = 0, v4y = 0, v4z = rs * 0.5 + 0.5, v4w = rs\<rparr>))"

text \<open>\<open>updateFn\<close>: wind and fall first, each assignment reading what the previous one wrote,
  then the respawn test on the new altitude. The kernel reads \<open>vel.z\<close> and assigns nothing
  to \<open>vel\<close>; the element is returned as it was read.\<close>
definition updateFn ::
  "hash_fn \<Rightarrow> ComputeUpdate \<Rightarrow> uniforms \<Rightarrow> u32 \<Rightarrow> vec3 \<times> vec4 \<Rightarrow> vec3 \<times> vec4" where
  "updateFn hash k u instanceIndex pv =
     (let pos = fst pv; vel = snd pv;
          pos = pos\<lparr>v3x := v3x pos + uWindX u\<rparr>;
          pos = pos\<lparr>v3y := v3y pos + uWindY u\<rparr>;
          pos = pos\<lparr>v3z := v3z pos - uFallSpeed u * v4z vel\<rparr>
      in if v3z pos < 0 then
           (let rx2 = hash (instanceIndex + cu_salt_rx2 k);
                ry2 = hash (instanceIndex + cu_salt_ry2 k)
            in (pos\<lparr>v3x := fst (uCenter u) + (rx2 * (uHalfSpan u * 2) - uHalfSpan u),
                    v3y := snd (uCenter u) + (ry2 * (uHalfSpan u * 2) - uHalfSpan u),
                    v3z := uAltSpan u\<rparr>, vel))
         else (pos, vel))"

text \<open>A dispatch \<open>compute(N)\<close> runs the kernel once for each index below \<open>N\<close>, on the element
  of each buffer at that index; elements at other indices are not touched.\<close>
definition dispatch ::
  "nat \<Rightarrow> (u32 \<Rightarrow> vec3 \<times> vec4 \<Rightarrow> vec3 \<times> vec4) \<Rightarrow> vec3 list \<times> vec4 list \<Rightarrow> vec3 list \<times> vec4 list" where
  "dispatch n body bufs =
     (let ps = fst bufs; vs = snd bufs
      in (map (\<lambda>i. if i < n \<and> i < length vs
                    then fst (body (of_nat i) (ps ! i, vs ! i)) else ps ! i) [0..<length ps],
          map (\<lambda>i. if i < n \<and> i < length ps
                    then snd (body (of_nat i) (ps ! i, vs ! i)) else vs ! i) [0..<length vs]))"

definition dispatchInit ::
  "hash_fn \<Rightarrow> ComputeInit \<Rightarrow> uniforms \<Rightarrow> vec3 list \<times> vec4 list \<Rightarrow> vec3 list \<times> vec4 list" where
  "dispatchInit hash k u = dispatch (ci_count k) (\<lambda>i pv. initFn hash k u i)"

definition dispatchUpdate ::
  "hash_fn \<Rightarrow> ComputeUpdate \<Rightarrow> uniforms \<Rightarrow> vec3 list \<times> vec4 list \<Rightarrow> vec3 list \<times> vec4 list" where
  "dispatchUpdate hash k u = dispatch (cu_count k) (updateFn hash k u)"

section \<open>The particle system: class \<open>SnowGPU\<close>\<close>

text \<open>
  Objects that the class holds by reference are embedded as follows. A storage buffer made
  by \<open>instancedArray\<close> is an address in GPU memory: \<open>posMem\<close> and \<open>velMem\<close> map an address
  to the contents of the buffer there, \<open>allocated\<close> counts the buffers made so far, and a new
  buffer takes the next address, zero-filled. A snow mesh is identified by the position
  buffer its material reads. \<open>submitted\<close> lists the commands given to the renderer, oldest
  first. These four fields are the environment of the object; the others are its fields.
\<close>

datatype gpu_cmd = ComputeInitCmd nat | ComputeUpdateCmd nat | RenderCmd

datatype scene_obj = SnowMeshObj nat | FogMeshObj

record WebGPURenderer =
  r_size :: "(real \<times> real) option"
  r_disposed :: bool

record SnowMesh =
  sm_pos :: nat
  sm_count :: count

text \<open>Of the camera the class drives the projection matrix only: \<open>frame\<close> overwrites it on
  every frame, and its inverse is a function of it. Until the first frame the matrix is the
  one that \<open>PerspectiveCamera(60, 1, 0.001, 1000)\<close> computes, which is left open here.\<close>
record PerspectiveCamera =
  projectionMatrix :: "mat4 option"

record SnowGPU =
  renderer :: "WebGPURenderer option"
  scene :: "scene_obj list option"
  camera :: "PerspectiveCamera option"
  particleCount :: count
  posBuffer :: "nat option"
  velBuffer :: "nat option"
  snowMesh :: "SnowMesh option"
  computeInit :: "ComputeInit option"
  computeUpdate :: "ComputeUpdate option"
  uni :: uniforms
  fogMesh :: "bool option"
  fogEnabled :: bool
  initialized :: bool
  initRan :: bool
  posMem :: "nat \<rightharpoonup> vec3 list"
  velMem :: "nat \<rightharpoonup> vec4 list"
  allocated :: nat
  submitted :: "gpu_cmd list"

text \<open>The object after \<open>new SnowGPU()\<close>, with nothing allocated and nothing submitted.\<close>
definition SnowGPU_new :: SnowGPU where
  "SnowGPU_new = \<lparr>renderer = None, scene = None, camera = None,
     particleCount = Count DEFAULT_PARTICLE_COUNT, posBuffer = None, velBuffer = None,
     snowMesh = None, computeInit = None, computeUpdate = None, uni = uniforms0,
     fogMesh = None, fogEnabled = True, initialized = False, initRan = False,
     posMem = Map.empty, velMem = Map.empty, allocated = 0, submitted = []\<rparr>"

definition zero3 :: vec3 where
  "zero3 = \<lparr>v3x = 0, v3y = 0, v3z = 0\<rparr>"

definition zero4 :: vec4 where
  "zero4 = \<lparr>v4x = 0, v4y = 0, v4z = 0, v4w = 0\<rparr>"

text \<open>\<open>_buildParticleSystem\<close>. The five calls of \<open>Math.random\<close> are \<open>rnd 0\<close> to \<open>rnd 4\<close>, in
  the order of the source: three in \<open>initFn\<close>, two in the respawn branch of \<open>updateFn\<close>.
  When the count is NaN the two buffers are empty, and a dispatch over them writes nothing
  whatever its size.\<close>
definition buildParticleSystem :: "random_fn \<Rightarrow> SnowGPU \<Rightarrow> SnowGPU" where
  "buildParticleSystem rnd s =
     (case (renderer s, scene s) of
        (Some r, Some objs) \<Rightarrow>
        (let N = particleCount s;
             p = allocated s;
             v = allocated s + 1
         in s\<lparr>posBuffer := Some p,
              velBuffer := Some v,
              posMem := (posMem s)(p \<mapsto> replicate (count_len N) zero3),
              velMem := (velMem s)(v \<mapsto> replicate (count_len N) zero4),
              allocated := allocated s + 2,
              computeInit := Some \<lparr>ci_pos = p, ci_vel = v, ci_count = count_len N,
                 ci_salt_ry = randUint (rnd 0), ci_salt_rz = randUint (rnd 1),
                 ci_salt_rs = randUint (rnd 2)\<rparr>,
              computeUpdate := Some \<lparr>cu_pos = p, cu_vel = v, cu_count = count_len N,
                 cu_salt_rx2 = randUint (rnd 3), cu_salt_ry2 = randUint (rnd 4)\<rparr>,
              snowMesh := Some \<lparr>sm_pos = p, sm_count = N\<rparr>,
              scene := Some (objs @ [SnowMeshObj p])\<rparr>)
      | _ \<Rightarrow> s)"

text \<open>\<open>_buildFogOverlay\<close>: the fog mesh is recorded by its \<open>visible\<close> flag.\<close>
definition buildFogOverlay :: "SnowGPU \<Rightarrow> SnowGPU" where
  "buildFogOverlay s =
     (case scene s of None \<Rightarrow> s | Some objs \<Rightarrow>
        s\<lparr>fogMesh := Some (fogEnabled s), scene := Some (objs @ [FogMeshObj])\<rparr>)"

text \<open>
  What the browser offers when \<open>init\<close> runs: no \<open>navigator.gpu\<close>; a renderer whose
  constructor throws; a renderer whose \<open>init()\<close> promise rejects (no adapter or device);
  or a working WebGPU device.
\<close>
datatype gpu_env = NoNavigatorGpu | RendererCtorThrows | RendererInitRejects | GpuAvailable

datatype exn = Thrown

text \<open>The body of the \<open>try\<close> block of \<open>init\<close>: the state at the point where it is left, and
  either the exception that left it or the value returned.\<close>
definition init_try :: "gpu_env \<Rightarrow> random_fn \<Rightarrow> SnowGPU \<Rightarrow> SnowGPU \<times> (exn + bool)" where
  "init_try env rnd s =
     (if env = RendererCtorThrows then (s, Inl Thrown)
      else
        (let s = s\<lparr>renderer := Some \<lparr>r_size = None, r_disposed = False\<rparr>\<rparr>
         in if env = RendererInitRejects then (s, Inl Thrown)
            else
              (let s = s\<lparr>scene := Some []\<rparr>;
                   s = s\<lparr>camera := Some \<lparr>projectionMatrix = None\<rparr>\<rparr>;
                   s = buildParticleSystem rnd s;
                   s = buildFogOverlay s;
                   s = s\<lparr>initialized := True\<rparr>
               in (s, Inr True))))"

text \<open>\<open>init\<close>: the state afterwards and the outcome of the promise, \<open>Inr b\<close> when it resolves
  to \<open>b\<close> and \<open>Inl e\<close> when it rejects with \<open>e\<close>. The \<open>catch\<close> clause turns an exception of the
  \<open>try\<close> block into the value \<open>false\<close>.\<close>
definition init :: "gpu_env \<Rightarrow> random_fn \<Rightarrow> SnowGPU \<Rightarrow> SnowGPU \<times> (exn + bool)" where
  "init env rnd s =
     (if env = NoNavigatorGpu then (s, Inr False)
      else (case init_try env rnd s of
              (s', Inl e) \<Rightarrow> (s', Inr False)
            | (s', Inr b) \<Rightarrow> (s', Inr b)))"

text \<open>\<open>renderer.compute\<close> on each of the two pipelines: the kernel runs over the buffers it
  captured, with the uniforms as they are now, and the command is recorded.\<close>
definition compute_init :: "hash_fn \<Rightarrow> ComputeInit \<Rightarrow> SnowGPU \<Rightarrow> SnowGPU" where
  "compute_init hash k s =
     (let s = (case (posMem s (ci_pos k), velMem s (ci_vel k)) of
                 (Some ps, Some vs) \<Rightarrow>
                   (let out = dispatchInit hash k (uni s) (ps, vs)
                    in s\<lparr>posMem := (posMem s)(ci_pos k \<mapsto> fst out),
                         velMem := (velMem s)(ci_vel k \<mapsto> snd out)\<rparr>)
               | _ \<Rightarrow> s)
      in s\<lparr>submitted := submitted s @ [ComputeInitCmd (ci_pos k)]\<rparr>)"

definition compute_update :: "hash_fn \<Rightarrow> ComputeUpdate \<Rightarrow> SnowGPU \<Rightarrow> SnowGPU" where
  "compute_update hash k s =
     (let s = (case (posMem s (cu_pos k), velMem s (cu_vel k)) of
                 (Some ps, Some vs) \<Rightarrow>
                   (let out = dispatchUpdate hash k (uni s) (ps, vs)
                    in s\<lparr>posMem := (posMem s)(cu_pos k \<mapsto> fst out),
                         velMem := (velMem s)(cu_vel k \<mapsto> snd out)\<rparr>)
               | _ \<Rightarrow> s)
      in s\<lparr>submitted := submitted s @ [ComputeUpdateCmd (cu_pos k)]\<rparr>)"

text \<open>\<open>frame\<close>: nothing unless renderer, scene and camera exist and \<open>initialized\<close> is set.\<close>
definition frame :: "hash_fn \<Rightarrow> mat4 \<Rightarrow> SnowGPU \<Rightarrow> SnowGPU" where
  "frame hash projMatrix s =
     (if renderer s = None \<or> scene s = None \<or> camera s = None \<or> initialized s = False
      then s
      else
        (let s = s\<lparr>camera := map_option (\<lambda>c. c\<lparr>projectionMatrix := Some projMatrix\<rparr>)
                                   (camera s)\<rparr>;
             s = (case computeUpdate s of None \<Rightarrow> s | Some k \<Rightarrow> compute_update hash k s)
         in s\<lparr>submitted := submitted s @ [RenderCmd]\<rparr>))"

text \<open>\<open>runInit\<close>, with the latch \<open>_initRan\<close>.\<close>
definition runInit :: "hash_fn \<Rightarrow> SnowGPU \<Rightarrow> SnowGPU" where
  "runInit hash s =
     (if initRan s \<or> renderer s = None then s
      else (case computeInit s of None \<Rightarrow> s
            | Some k \<Rightarrow> (compute_init hash k s)\<lparr>initRan := True\<rparr>))"

subsection \<open>Uniform updates\<close>

definition pxToMerc :: "real \<Rightarrow> real" where
  "pxToMerc zoom = 1 / (512 * 2 powr zoom)"

definition updateSpatial :: "real \<Rightarrow> real \<Rightarrow> real \<Rightarrow> real \<Rightarrow> SnowGPU \<Rightarrow> SnowGPU" where
  "updateSpatial mercX mercY zoom canvasCSSWidth s =
     (let halfSpan = canvasCSSWidth * pxToMerc zoom * 1.2;
          altSpan = halfSpan * 0.5
      in s\<lparr>uni := (uni s)\<lparr>uCenter := (mercX, mercY), uHalfSpan := halfSpan,
                            uAltSpan := altSpan\<rparr>\<rparr>)"

definition updateFlakeRadius :: "real \<Rightarrow> real \<Rightarrow> real \<Rightarrow> SnowGPU \<Rightarrow> SnowGPU" where
  "updateFlakeRadius flakeSizePx zoom dpr s =
     s\<lparr>uni := (uni s)\<lparr>uRadius := flakeSizePx * pxToMerc zoom * dpr * 0.5\<rparr>\<rparr>"

definition updateWind :: "real \<Rightarrow> real \<Rightarrow> real \<Rightarrow> real \<Rightarrow> SnowGPU \<Rightarrow> SnowGPU" where
  "updateWind azimuthDeg speedPxPerSec zoom fps s =
     (let azRad = (azimuthDeg * pi) / 180;
          mercSpeedPerFrame = (speedPxPerSec * pxToMerc zoom) / fps
      in s\<lparr>uni := (uni s)\<lparr>uWindX := sin azRad * mercSpeedPerFrame,
                            uWindY := cos azRad * mercSpeedPerFrame\<rparr>\<rparr>)"

definition updateFallSpeed :: "real \<Rightarrow> real \<Rightarrow> real \<Rightarrow> SnowGPU \<Rightarrow> SnowGPU" where
  "updateFallSpeed intensity zoom fps s =
     s\<lparr>uni := (uni s)\<lparr>uFallSpeed := (40 * intensity * pxToMerc zoom) / fps\<rparr>\<rparr>"

subsection \<open>Setters\<close>

text \<open>\<open>Math.max(0, Math.min(1, density))\<close>: a value from 0 to 1, or NaN, here \<open>None\<close>, when
  the density is NaN.\<close>
fun clamp01 :: "number \<Rightarrow> real option" where
  "clamp01 (Finite x) = Some (max 0 (min 1 x))"
| "clamp01 PosInfinity = Some 1"
| "clamp01 NegInfinity = Some 0"
| "clamp01 NaN = None"

text \<open>The count that \<open>setDensity\<close> maps a density to. \<open>Math.round\<close> rounds a half up, as
  \<open>round\<close> does, and gives NaN for NaN.\<close>
definition newCount :: "number \<Rightarrow> count" where
  "newCount density =
     (case clamp01 density of
        Some c \<Rightarrow>
          Count (round (real_of_int MIN_PARTICLE_COUNT +
                        c * real_of_int (MAX_PARTICLE_COUNT - MIN_PARTICLE_COUNT)))
      | None \<Rightarrow> NaNCount)"

text \<open>\<open>_rebuildParticles\<close>: the old mesh leaves the scene, the latch is reset, and the
  particle system is built again.\<close>
definition rebuildParticles :: "random_fn \<Rightarrow> SnowGPU \<Rightarrow> SnowGPU" where
  "rebuildParticles rnd s =
     (case scene s of None \<Rightarrow> s | Some objs \<Rightarrow>
        (let s = (case snowMesh s of None \<Rightarrow> s
                  | Some m \<Rightarrow> s\<lparr>scene := Some (remove1 (SnowMeshObj (sm_pos m)) objs)\<rparr>);
             s = s\<lparr>initRan := False\<rparr>
         in buildParticleSystem rnd s))"

definition setDensity :: "random_fn \<Rightarrow> number \<Rightarrow> SnowGPU \<Rightarrow> SnowGPU" where
  "setDensity rnd density s =
     (if strict_eq (newCount density) (particleCount s) then s
      else rebuildParticles rnd (s\<lparr>particleCount := newCount density\<rparr>))"

definition setOpacity :: "real \<Rightarrow> SnowGPU \<Rightarrow> SnowGPU" where
  "setOpacity v s = s\<lparr>uni := (uni s)\<lparr>uOpacity := max 0 (min 1 v)\<rparr>\<rparr>"

definition setColor :: "real \<Rightarrow> real \<Rightarrow> real \<Rightarrow> SnowGPU \<Rightarrow> SnowGPU" where
  "setColor r g b s = s\<lparr>uni := (uni s)\<lparr>uColor := (r, g, b)\<rparr>\<rparr>"

definition setFog :: "bool \<Rightarrow> SnowGPU \<Rightarrow> SnowGPU" where
  "setFog enabled s =
     (let s = s\<lparr>fogEnabled := enabled\<rparr>
      in case fogMesh s of None \<Rightarrow> s | Some vis \<Rightarrow> s\<lparr>fogMesh := Some enabled\<rparr>)"

definition setFogOpacity :: "real \<Rightarrow> SnowGPU \<Rightarrow> SnowGPU" where
  "setFogOpacity v s = s\<lparr>uni := (uni s)\<lparr>uFogOpacity := max 0 (min 1 v)\<rparr>\<rparr>"

definition resize :: "real \<Rightarrow> real \<Rightarrow> SnowGPU \<Rightarrow> SnowGPU" where
  "resize cssWidth cssHeight s =
     (case renderer s of None \<Rightarrow> s
      | Some r \<Rightarrow> s\<lparr>renderer := Some (r\<lparr>r_size := Some (cssWidth, cssHeight)\<rparr>)\<rparr>)"

text \<open>\<open>dispose\<close> releases the geometry and material of the meshes and the renderer; of these
  the model keeps the renderer's flag only.\<close>
definition dispose :: "SnowGPU \<Rightarrow> SnowGPU" where
  "dispose s =
     (case renderer s of None \<Rightarrow> s
      | Some r \<Rightarrow> s\<lparr>renderer := Some (r\<lparr>r_disposed := True\<rparr>)\<rparr>)"

definition ready :: "SnowGPU \<Rightarrow> bool" where
  "ready s = initialized s"

section \<open>The custom layer: class \<open>MaplibreSnowLayer\<close>\<close>

definition lngLatToMercator :: "real \<Rightarrow> real \<Rightarrow> real \<times> real" where
  "lngLatToMercator lng lat =
     (let sinLat = sin ((lat * pi) / 180)
      in ((lng + 180) / 360, 0.5 - ln ((1 + sinLat) / (1 - sinLat)) / (4 * pi)))"

record MaplibreSnowOptions =
  o_id :: "string option"
  o_density :: "number option"
  o_intensity :: "real option"
  o_flakeSize :: "real option"
  o_opacity :: "real option"
  o_direction :: "(real \<times> real) option"
  o_fog :: "bool option"
  o_fogOpacity :: "real option"

text \<open>\<open>l_map\<close> says whether \<open>this.map\<close> is set; \<open>l_repaints\<close> counts the calls of
  \<open>map.triggerRepaint()\<close>.\<close>
record MaplibreSnowLayer =
  l_id :: string
  l_map :: bool
  l_gpu :: "SnowGPU option"
  l_density :: number
  l_intensity :: real
  l_flakeSize :: real
  l_opacity :: real
  l_direction :: "real \<times> real"
  l_fog :: bool
  l_fogOpacity :: real
  l_lastFrameTime :: real
  l_fps :: real
  l_repaints :: nat

definition new_layer :: "MaplibreSnowOptions \<Rightarrow> MaplibreSnowLayer" where
  "new_layer options =
     \<lparr>l_id = (case o_id options of None \<Rightarrow> ''snow'' | Some v \<Rightarrow> v),
      l_map = False,
      l_gpu = None,
      l_density = (case o_density options of None \<Rightarrow> Finite 0.5 | Some v \<Rightarrow> v),
      l_intensity = (case o_intensity options of None \<Rightarrow> 0.5 | Some v \<Rightarrow> v),
      l_flakeSize = (case o_flakeSize options of None \<Rightarrow> 4 | Some v \<Rightarrow> v),
      l_opacity = (case o_opacity options of None \<Rightarrow> 0.8 | Some v \<Rightarrow> v),
      l_direction = (case o_direction options of None \<Rightarrow> (0, 50) | Some v \<Rightarrow> v),
      l_fog = (case o_fog options of None \<Rightarrow> True | Some v \<Rightarrow> v),
      l_fogOpacity = (case o_fogOpacity options of None \<Rightarrow> 0.08 | Some v \<Rightarrow> v),
      l_lastFrameTime = 0,
      l_fps = 60,
      l_repaints = 0\<rparr>"

text \<open>\<open>onAdd\<close>, as far as the particle system goes: a new \<open>SnowGPU\<close>, its \<open>init\<close>, and, once
  the promise has resolved to \<open>true\<close>, the initial options. The promise and its callback are
  run in one step. The rebuild that \<open>setDensity\<close> may start draws \<open>rnd 5\<close> to \<open>rnd 9\<close>.\<close>
definition onAdd :: "gpu_env \<Rightarrow> random_fn \<Rightarrow> MaplibreSnowLayer \<Rightarrow> MaplibreSnowLayer" where
  "onAdd env rnd L =
     (let res = init env rnd SnowGPU_new;
          g = fst res;
          g = (if snd res = Inr True
               then (let g = setDensity (\<lambda>k. rnd (k + 5)) (l_density L) g;
                         g = setOpacity (l_opacity L) g;
                         g = setFog (l_fog L) g
                     in setFogOpacity (l_fogOpacity L) g)
               else g)
      in L\<lparr>l_map := True, l_gpu := Some g\<rparr>)"

text \<open>What the host supplies to one call of \<open>render\<close>: the clock, the camera and the canvas.\<close>
record frame_input =
  fi_now :: real
  fi_zoom :: real
  fi_lng :: real
  fi_lat :: real
  fi_dpr :: real
  fi_clientWidth :: real
  fi_mainMatrix :: mat4

definition render :: "hash_fn \<Rightarrow> frame_input \<Rightarrow> MaplibreSnowLayer \<Rightarrow> MaplibreSnowLayer" where
  "render hash inp L =
     (case l_gpu L of None \<Rightarrow> L
      | Some g \<Rightarrow>
        if ready g = False \<or> l_map L = False then L
        else
          (let now = fi_now inp;
               dt = now - l_lastFrameTime L;
               L = (if l_lastFrameTime L > 0 \<and> dt > 0
                    then L\<lparr>l_fps := l_fps L * 0.9 + (1000 / dt) * 0.1\<rparr> else L);
               L = L\<lparr>l_lastFrameTime := now\<rparr>;
               fps = max 10 (min 120 (l_fps L));
               zoom = fi_zoom inp;
               dpr = fi_dpr inp;
               cssW = fi_clientWidth inp;
               merc = lngLatToMercator (fi_lng inp) (fi_lat inp);
               g = updateSpatial (fst merc) (snd merc) zoom cssW g;
               g = updateFlakeRadius (l_flakeSize L) zoom dpr g;
               g = updateWind (fst (l_direction L)) (snd (l_direction L)) zoom fps g;
               g = updateFallSpeed (l_intensity L) zoom fps g;
               g = runInit hash g;
               g = frame hash (fi_mainMatrix inp) g
           in L\<lparr>l_gpu := Some g, l_repaints := l_repaints L + 1\<rparr>))"

definition onRemove :: "MaplibreSnowLayer \<Rightarrow> MaplibreSnowLayer" where
  "onRemove L = L\<lparr>l_map := False, l_gpu := None\<rparr>"

definition layer_setDensity :: "random_fn \<Rightarrow> number \<Rightarrow> MaplibreSnowLayer \<Rightarrow> MaplibreSnowLayer" where
  "layer_setDensity rnd density L =
     (let L = L\<lparr>l_density := density\<rparr>
      in L\<lparr>l_gpu := map_option (setDensity rnd density) (l_gpu L)\<rparr>)"

definition layer_setOpacity :: "real \<Rightarrow> MaplibreSnowLayer \<Rightarrow> MaplibreSnowLayer" where
  "layer_setOpacity opacity L =
     (let L = L\<lparr>l_opacity := opacity\<rparr>
      in L\<lparr>l_gpu := map_option (setOpacity opacity) (l_gpu L)\<rparr>)"

definition layer_setFog :: "bool \<Rightarrow> MaplibreSnowLayer \<Rightarrow> MaplibreSnowLayer" where
  "layer_setFog enabled L =
     (let L = L\<lparr>l_fog := enabled\<rparr>
      in L\<lparr>l_gpu := map_option (setFog enabled) (l_gpu L)\<rparr>)"

definition layer_setFogOpacity :: "real \<Rightarrow> MaplibreSnowLayer \<Rightarrow> MaplibreSnowLayer" where
  "layer_setFogOpacity opacity L =
     (let L = L\<lparr>l_fogOpacity := opacity\<rparr>
      in L\<lparr>l_gpu := map_option (setFogOpacity opacity) (l_gpu L)\<rparr>)"

definition layer_setIntensity :: "real \<Rightarrow> MaplibreSnowLayer \<Rightarrow> MaplibreSnowLayer" where
  "layer_setIntensity intensity L = L\<lparr>l_intensity := max 0 (min 1 intensity)\<rparr>"

definition layer_setFlakeSize :: "real \<Rightarrow> MaplibreSnowLayer \<Rightarrow> MaplibreSnowLayer" where
  "layer_setFlakeSize sz L = L\<lparr>l_flakeSize := sz\<rparr>"

definition layer_setDirection :: "real \<times> real \<Rightarrow> MaplibreSnowLayer \<Rightarrow> MaplibreSnowLayer" where
  "layer_setDirection direction L = L\<lparr>l_direction := direction\<rparr>"

section \<open>Sequences of calls\<close>

text \<open>The methods of \<open>SnowGPU\<close> that the layer calls after \<open>init\<close>, as a datatype, to speak
  of an arbitrary sequence of them.\<close>
datatype gpu_call =
    CallFrame mat4
  | CallRunInit
  | CallUpdateSpatial real real real real
  | CallUpdateFlakeRadius real real real
  | CallUpdateWind real real real real
  | CallUpdateFallSpeed real real real
  | CallSetDensity random_fn number
  | CallSetOpacity real
  | CallSetColor real real real
  | CallSetFog bool
  | CallSetFogOpacity real
  | CallResize real real
  | CallDispose

fun call :: "hash_fn \<Rightarrow> gpu_call \<Rightarrow> SnowGPU \<Rightarrow> SnowGPU" where
  "call hash (CallFrame m) s = frame hash m s"
| "call hash CallRunInit s = runInit hash s"
| "call hash (CallUpdateSpatial mx my z w) s = updateSpatial mx my z w s"
| "call hash (CallUpdateFlakeRadius f z d) s = updateFlakeRadius f z d s"
| "call hash (CallUpdateWind a sp z f) s = updateWind a sp z f s"
| "call hash (CallUpdateFallSpeed i z f) s = updateFallSpeed i z f s"
| "call hash (CallSetDensity rnd d) s = setDensity rnd d s"
| "call hash (CallSetOpacity v) s = setOpacity v s"
| "call hash (CallSetColor r g b) s = setColor r g b s"
| "call hash (CallSetFog e) s = setFog e s"
| "call hash (CallSetFogOpacity v) s = setFogOpacity v s"
| "call hash (CallResize w h) s = resize w h s"
| "call hash CallDispose s = dispose s"

fun calls :: "hash_fn \<Rightarrow> gpu_call list \<Rightarrow> SnowGPU \<Rightarrow> SnowGPU" where
  "calls hash [] s = s"
| "calls hash (c # cs) s = calls hash cs (call hash c s)"

fun renders :: "hash_fn \<Rightarrow> frame_input list \<Rightarrow> MaplibreSnowLayer \<Rightarrow> MaplibreSnowLayer" where
  "renders hash [] L = L"
| "renders hash (inp # inps) L = renders hash inps (render hash inp L)"

text \<open>A call of \<open>setDensity\<close> whose mapped count is not \<open>===\<close> to \<open>n\<close>, so that it rebuilds
  when the current count is \<open>n\<close>.\<close>
fun changes_count :: "count \<Rightarrow> gpu_call \<Rightarrow> bool" where
  "changes_count n (CallSetDensity rnd d) = (strict_eq (newCount d) n = False)"
| "changes_count n c = False"

fun is_runInit :: "gpu_call \<Rightarrow> bool" where
  "is_runInit CallRunInit = True"
| "is_runInit c = False"

text \<open>How often the Spawn Kernel has been dispatched.\<close>
fun is_spawn :: "gpu_cmd \<Rightarrow> bool" where
  "is_spawn (ComputeInitCmd p) = True"
| "is_spawn c = False"

definition spawns :: "SnowGPU \<Rightarrow> nat" where
  "spawns s = length (filter is_spawn (submitted s))"

subsection \<open>Buffers an object refers to\<close>

fun opt_list :: "'a option \<Rightarrow> 'a list" where
  "opt_list None = []"
| "opt_list (Some x) = [x]"

fun obj_refs :: "scene_obj \<Rightarrow> nat list" where
  "obj_refs (SnowMeshObj p) = [p]"
| "obj_refs FogMeshObj = []"

definition scene_refs :: "SnowGPU \<Rightarrow> nat list" where
  "scene_refs s = concat (map obj_refs (concat (opt_list (scene s))))"

text \<open>Every buffer address that the object, its pipelines, its mesh or its scene holds.\<close>
definition buffer_refs :: "SnowGPU \<Rightarrow> nat list" where
  "buffer_refs s =
     opt_list (posBuffer s) @ opt_list (velBuffer s) @
     concat (map (\<lambda>k. [ci_pos k, ci_vel k]) (opt_list (computeInit s))) @
     concat (map (\<lambda>k. [cu_pos k, cu_vel k]) (opt_list (computeUpdate s))) @
     map sm_pos (opt_list (snowMesh s)) @
     scene_refs s"

text \<open>What holds of the object after \<open>init\<close> and after every later call. Without a
  position buffer there is no scene, pipeline or mesh either. With one, at address \<open>p\<close>, the
  velocity buffer is the next address, both hold \<open>particleCount\<close> elements, both pipelines
  and the mesh were built over them with that count, the scene shows this mesh and no
  other, and renderer and scene exist.\<close>
definition gpu_inv :: "SnowGPU \<Rightarrow> bool" where
  "gpu_inv s =
     (case posBuffer s of
        None \<Rightarrow>
          scene s = None \<and> velBuffer s = None \<and> computeInit s = None \<and>
          computeUpdate s = None \<and> snowMesh s = None
      | Some p \<Rightarrow>
          (let N = count_len (particleCount s)
           in p + 1 < allocated s \<and> velBuffer s = Some (p + 1) \<and>
              map_option length (posMem s p) = Some N \<and>
              map_option length (velMem s (p + 1)) = Some N \<and>
              map_option (\<lambda>k. (ci_pos k, ci_vel k, ci_count k)) (computeInit s)
                = Some (p, p + 1, N) \<and>
              map_option (\<lambda>k. (cu_pos k, cu_vel k, cu_count k)) (computeUpdate s)
                = Some (p, p + 1, N) \<and>
              snowMesh s = Some \<lparr>sm_pos = p, sm_count = particleCount s\<rparr> \<and>
              scene_refs s = [p] \<and> renderer s \<noteq> None \<and> scene s \<noteq> None))"

text \<open>Any other call: one that does not rebuild when the current count is \<open>n\<close>.\<close>
definition keeps_count :: "count \<Rightarrow> gpu_call \<Rightarrow> bool" where
  "keeps_count n c = (changes_count n c = False)"

section \<open>The position node of the snow material\<close>

text \<open>\<open>uMainMatrix.mul(center4)\<close>: the product of a column-major 4x4 matrix and a vector.\<close>
definition mat4_mul :: "mat4 \<Rightarrow> vec4 \<Rightarrow> vec4" where
  "mat4_mul m v =
     \<lparr>v4x = m 0 * v4x v + m 4 * v4y v + m 8 * v4z v + m 12 * v4w v,
      v4y = m 1 * v4x v + m 5 * v4y v + m 9 * v4z v + m 13 * v4w v,
      v4z = m 2 * v4x v + m 6 * v4y v + m 10 * v4z v + m 14 * v4w v,
      v4w = m 3 * v4x v + m 7 * v4y v + m 11 * v4z v + m 15 * v4w v\<rparr>"

definition dot3 :: "vec3 \<Rightarrow> vec3 \<Rightarrow> real" where
  "dot3 a b = v3x a * v3x b + v3y a * v3y b + v3z a * v3z b"

text \<open>The screen-space billboard \<open>material.positionNode\<close> (the variant of the particle
  system with the uniforms \<open>uRadiusPx\<close>, \<open>uMainMatrix\<close>, \<open>uViewportW\<close> and \<open>uViewportH\<close>), for
  one vertex \<open>positionLocal\<close> of the plane of one particle.\<close>
definition billboard_positionNode ::
  "mat4 \<Rightarrow> real \<Rightarrow> real \<Rightarrow> real \<Rightarrow> vec3 \<Rightarrow> vec3 \<Rightarrow> vec3" where
  "billboard_positionNode uMainMatrix uRadiusPx uViewportW uViewportH particlePos positionLocal =
     (let center4 = \<lparr>v4x = v3x particlePos, v4y = v3y particlePos, v4z = v3z particlePos,
                      v4w = 1\<rparr>;
          clipCenter = mat4_mul uMainMatrix center4;
          w = v4w clipCenter;
          localX = dot3 positionLocal \<lparr>v3x = 1, v3y = 0, v3z = 0\<rparr>;
          localY = dot3 positionLocal \<lparr>v3x = 0, v3y = 1, v3z = 0\<rparr>;
          rNDC_x = uRadiusPx * 2 / uViewportW;
          rNDC_y = uRadiusPx * 2 / uViewportH;
          ndcX = v4x clipCenter / w + localX * rNDC_x;
          ndcY = v4y clipCenter / w + localY * rNDC_y;
          ndcZ = v4z clipCenter / w
      in \<lparr>v3x = ndcX, v3y = ndcY, v3z = ndcZ\<rparr>)"

text \<open>The clip-space position of the centre of a particle and its normalised device
  coordinates, as steps 1 and 2 of the projector have them.\<close>
definition clip_of :: "mat4 \<Rightarrow> vec3 \<Rightarrow> vec4" where
  "clip_of m p = mat4_mul m \<lparr>v4x = v3x p, v4y = v3y p, v4z = v3z p, v4w = 1\<rparr>"

definition ndc_of :: "mat4 \<Rightarrow> vec3 \<Rightarrow> vec3" where
  "ndc_of m p =
     (let c = clip_of m p
      in \<lparr>v3x = v4x c / v4w c, v3y = v4y c / v4w c, v3z = v4z c / v4w c\<rparr>)"

text \<open>The world-space \<open>material.positionNode\<close> of \<open>src/index.ts\<close>: the unit sphere scaled by
  \<open>uRadius\<close> and moved to the particle. The camera's projection matrix is applied to it
  afterwards, by the renderer.\<close>
definition sphere_positionNode :: "real \<Rightarrow> vec3 \<Rightarrow> vec3 \<Rightarrow> vec3" where
  "sphere_positionNode r particlePos positionLocal =
     \<lparr>v3x = v3x positionLocal * r + v3x particlePos,
      v3y = v3y positionLocal * r + v3y particlePos,
      v3z = v3z positionLocal * r + v3z particlePos\<rparr>"

text \<open>The calls that \<open>render\<close> makes on every frame behind a guard of their own.\<close>
fun per_frame :: "gpu_call \<Rightarrow> bool" where
  "per_frame (CallFrame m) = True"
| "per_frame CallRunInit = True"
| "per_frame c = False"

section \<open>The salts as the specification words them\<close>

text \<open>The specification has the Spawn Kernel hash the index with four distinct odd salts.
  This predicate says so of the salts of a pipeline; it follows the specification and is
  compared with the pipelines that \<open>buildParticleSystem\<close> makes.\<close>
definition four_distinct_odd_salts :: "ComputeInit \<Rightarrow> bool" where
  "four_distinct_odd_salts k =
     (distinct (initSalts k) \<and> list_all (\<lambda>w. odd (unat w)) (initSalts k))"

section \<open>Concrete inputs\<close>

text \<open>Inputs at which the theorems below are instantiated: a hash with values in the unit
  interval, uniforms, a pipeline, and two buffers of two particles.\<close>

definition hash_demo :: hash_fn where
  "hash_demo w = real (unat w mod 4) / 4"

definition u_demo :: uniforms where
  "u_demo = uniforms0\<lparr>uFallSpeed := 0.001, uWindX := 0.0001, uWindY := 0.0002\<rparr>"

definition ps_demo :: "vec3 list" where
  "ps_demo = [\<lparr>v3x = 0.4, v3y = 0.6, v3z = 0.0005\<rparr>, \<lparr>v3x = 0.5, v3y = 0.5, v3z = 0.002\<rparr>]"

definition vs_demo :: "vec4 list" where
  "vs_demo = [\<lparr>v4x = 0, v4y = 0, v4z = 0.75, v4w = 0.5\<rparr>, \<lparr>v4x = 0, v4y = 0, v4z = 1, v4w = 0.25\<rparr>]"

definition k_demo :: ComputeUpdate where
  "k_demo = \<lparr>cu_pos = 0, cu_vel = 1, cu_count = 2, cu_salt_rx2 = 5, cu_salt_ry2 = 6\<rparr>"

text \<open>Two sources of random draws, the first constant, the second with seven values
  below 1; the pipeline built from the first and the object after a successful \<open>init\<close>;
  the spawn pipeline built from the second; a projection whose clip \<open>w\<close> is the altitude;
  a corner of the quad and two particles at different depths; the default options, one
  frame of the host, a sequence of calls, and the layer after a successful \<open>onAdd\<close>.\<close>

definition rnd_zero :: random_fn where
  "rnd_zero j = 0"

definition rnd_demo :: random_fn where
  "rnd_demo j = (real (j mod 7) + 1) / 8"

definition k_zero :: ComputeInit where
  "k_zero = \<lparr>ci_pos = 0, ci_vel = 1, ci_count = 100000,
     ci_salt_ry = 0, ci_salt_rz = 0, ci_salt_rs = 0\<rparr>"

definition s_demo :: SnowGPU where
  "s_demo = fst (init GpuAvailable rnd_zero SnowGPU_new)"

definition ki_demo :: ComputeInit where
  "ki_demo = \<lparr>ci_pos = 2, ci_vel = 3, ci_count = 100000,
     ci_salt_ry = 2097151, ci_salt_rz = 4194303, ci_salt_rs = 6291455\<rparr>"

definition m_persp :: mat4 where
  "m_persp i = (if i = 0 \<or> i = 5 \<or> i = 10 \<or> i = 11 then 1 else 0)"

definition l_corner :: vec3 where
  "l_corner = \<lparr>v3x = 1, v3y = -1, v3z = 0\<rparr>"

definition p_near :: vec3 where
  "p_near = \<lparr>v3x = 0.5, v3y = 0.25, v3z = 1\<rparr>"

definition p_far :: vec3 where
  "p_far = \<lparr>v3x = 0.5, v3y = 0.25, v3z = 2\<rparr>"

definition options_default :: MaplibreSnowOptions where
  "options_default = \<lparr>o_id = None, o_density = None, o_intensity = None, o_flakeSize = None,
     o_opacity = None, o_direction = None, o_fog = None, o_fogOpacity = None\<rparr>"

definition inp_demo :: frame_input where
  "inp_demo = \<lparr>fi_now = 16, fi_zoom = 13, fi_lng = 0, fi_lat = 0, fi_dpr = 2,
     fi_clientWidth = 800, fi_mainMatrix = m_persp\<rparr>"

definition cs_demo :: "gpu_call list" where
  "cs_demo = [CallUpdateWind 0 50 13 60, CallRunInit, CallFrame m_persp, CallSetOpacity 1,
     CallSetDensity rnd_zero (Finite (9 / 19)), CallRunInit, CallFrame m_persp]"

definition L_demo :: MaplibreSnowLayer where
  "L_demo = onAdd GpuAvailable rnd_zero (new_layer options_default)"

section \<open>The Update Kernel\<close>

lemma dispatch_length:
  "length (fst (dispatch n body (ps, vs))) = length ps"
  "length (snd (dispatch n body (ps, vs))) = length vs"
  by (simp_all add: dispatch_def)

lemma dispatch_nth_pos:
  "i < n \<Longrightarrow> i < length ps \<Longrightarrow> i < length vs \<Longrightarrow>
   fst (dispatch n body (ps, vs)) ! i = fst (body (of_nat i) (ps ! i, vs ! i))"
  by (simp add: dispatch_def)

lemma dispatch_nth_vel:
  "i < n \<Longrightarrow> i < length ps \<Longrightarrow> i < length vs \<Longrightarrow>
   snd (dispatch n body (ps, vs)) ! i = snd (body (of_nat i) (ps ! i, vs ! i))"
  by (simp add: dispatch_def)

lemma respawn_coordinate:
  fixes c h r :: real
  assumes "0 \<le> h" "0 \<le> r" "r \<le> 1"
  shows "c - h \<le> c + (r * (h * 2) - h)" "c + (r * (h * 2) - h) \<le> c + h"
proof -
  have "0 \<le> r * (h * 2)" using assms by simp
  then show "c - h \<le> c + (r * (h * 2) - h)" by simp
  have "r * (h * 2) \<le> 1 * (h * 2)" using assms by (intro mult_right_mono) simp_all
  then show "c + (r * (h * 2) - h) \<le> c + h" by simp
qed

lemma updateFn_respawn:
  assumes "v3z p - uFallSpeed u * v4z v < 0"
  shows "fst (updateFn hash k u i (p, v)) =
           \<lparr>v3x = fst (uCenter u) + (hash (i + cu_salt_rx2 k) * (uHalfSpan u * 2) - uHalfSpan u),
            v3y = snd (uCenter u) + (hash (i + cu_salt_ry2 k) * (uHalfSpan u * 2) - uHalfSpan u),
            v3z = uAltSpan u\<rparr>"
  using assms by (simp add: updateFn_def Let_def)

lemma updateFn_fall:
  assumes "\<not> v3z p - uFallSpeed u * v4z v < 0"
  shows "fst (updateFn hash k u i (p, v)) =
           \<lparr>v3x = v3x p + uWindX u, v3y = v3y p + uWindY u,
            v3z = v3z p - uFallSpeed u * v4z v\<rparr>"
  using assms by (simp add: updateFn_def Let_def)

lemma updateFn_vel: "snd (updateFn hash k u i (p, v)) = v"
  by (simp add: updateFn_def Let_def)

text \<open>
  Claim C1 (respawn invariant). In a dispatch of the Update Kernel, a particle whose
  altitude minus \<open>uFallSpeed * vel.z\<close> is below 0 ends the frame at altitude \<open>uAltSpan\<close>,
  with \<open>x\<close> and \<open>y\<close> inside the spawn box of the frame's uniforms, from centre minus half-span
  to centre plus half-span. The hash is taken to give values from 0 to 1, and the half-span
  is not negative, as \<open>updateSpatial\<close> makes it for a canvas of non-negative width
  (\<open>updateSpatial_halfSpan\<close> below).
\<close>
theorem respawn_invariant:
  assumes hash_range: "\<And>w. 0 \<le> hash w \<and> hash w \<le> 1"
    and span: "0 \<le> uHalfSpan u"
    and idx: "i < cu_count k" "i < length ps" "length vs = length ps"
    and below: "v3z (ps ! i) - uFallSpeed u * v4z (vs ! i) < 0"
  shows "v3z (fst (dispatchUpdate hash k u (ps, vs)) ! i) = uAltSpan u \<and>
         fst (uCenter u) - uHalfSpan u \<le> v3x (fst (dispatchUpdate hash k u (ps, vs)) ! i) \<and>
         v3x (fst (dispatchUpdate hash k u (ps, vs)) ! i) \<le> fst (uCenter u) + uHalfSpan u \<and>
         snd (uCenter u) - uHalfSpan u \<le> v3y (fst (dispatchUpdate hash k u (ps, vs)) ! i) \<and>
         v3y (fst (dispatchUpdate hash k u (ps, vs)) ! i) \<le> snd (uCenter u) + uHalfSpan u"
proof -
  have elem: "fst (dispatchUpdate hash k u (ps, vs)) ! i =
              fst (updateFn hash k u (of_nat i) (ps ! i, vs ! i))"
    using idx by (simp add: dispatchUpdate_def dispatch_nth_pos)
  note r = updateFn_respawn [OF below, of hash k "of_nat i"]
  have hx: "0 \<le> hash (of_nat i + cu_salt_rx2 k)" "hash (of_nat i + cu_salt_rx2 k) \<le> 1"
    and hy: "0 \<le> hash (of_nat i + cu_salt_ry2 k)" "hash (of_nat i + cu_salt_ry2 k) \<le> 1"
    using hash_range by simp_all
  show ?thesis
    unfolding elem r
    using respawn_coordinate [OF span hx] respawn_coordinate [OF span hy] by simp
qed

lemma updateSpatial_halfSpan:
  assumes "0 \<le> w"
  shows "0 \<le> uHalfSpan (uni (updateSpatial mx my z w s))"
  using assms by (simp add: updateSpatial_def pxToMerc_def Let_def)

lemma hash_demo_range: "0 \<le> hash_demo w \<and> hash_demo w \<le> 1"
proof -
  have "unat w mod 4 < 4" by simp
  then have "real (unat w mod 4) \<le> 4" by linarith
  then show ?thesis by (simp add: hash_demo_def)
qed

theorem respawn_invariant_witness:
  "v3z (ps_demo ! 0) - uFallSpeed u_demo * v4z (vs_demo ! 0) < 0 \<and>
   fst (dispatchUpdate hash_demo k_demo u_demo (ps_demo, vs_demo)) ! 0 =
     \<lparr>v3x = 0.4975, v3y = 0.5, v3z = 0.0025\<rparr>"
proof -
  have below: "v3z (ps_demo ! 0) - uFallSpeed u_demo * v4z (vs_demo ! 0) < 0"
    by (simp add: ps_demo_def vs_demo_def u_demo_def)
  have span: "0 \<le> uHalfSpan u_demo" by (simp add: u_demo_def uniforms0_def)
  have idx: "0 < cu_count k_demo" "0 < length ps_demo" "length vs_demo = length ps_demo"
    by (simp_all add: k_demo_def ps_demo_def vs_demo_def)
  note t = respawn_invariant [of hash_demo, OF hash_demo_range span idx below]
  have "fst (dispatchUpdate hash_demo k_demo u_demo (ps_demo, vs_demo)) ! 0 =
     \<lparr>v3x = 0.4975, v3y = 0.5, v3z = 0.0025\<rparr>"
    by (simp add: dispatchUpdate_def dispatch_def updateFn_def Let_def ps_demo_def vs_demo_def
        k_demo_def u_demo_def uniforms0_def hash_demo_def)
  with below t show ?thesis by simp
qed

text \<open>
  Claim C2 (fall between respawns). In a dispatch of the Update Kernel, a particle whose
  altitude minus \<open>uFallSpeed * vel.z\<close> is not below 0 ends the frame with exactly that
  altitude, with \<open>x\<close> moved by \<open>uWindX\<close> and \<open>y\<close> by \<open>uWindY\<close>: wind and fall are applied
  first, and the respawn test reads the altitude after the fall.
\<close>
theorem fall_without_respawn:
  assumes idx: "i < cu_count k" "i < length ps" "length vs = length ps"
    and above: "\<not> v3z (ps ! i) - uFallSpeed u * v4z (vs ! i) < 0"
  shows "fst (dispatchUpdate hash k u (ps, vs)) ! i =
           \<lparr>v3x = v3x (ps ! i) + uWindX u,
            v3y = v3y (ps ! i) + uWindY u,
            v3z = v3z (ps ! i) - uFallSpeed u * v4z (vs ! i)\<rparr>"
proof -
  have "fst (dispatchUpdate hash k u (ps, vs)) ! i =
        fst (updateFn hash k u (of_nat i) (ps ! i, vs ! i))"
    using idx by (simp add: dispatchUpdate_def dispatch_nth_pos)
  then show ?thesis
    by (simp add: updateFn_fall [OF above])
qed

theorem fall_without_respawn_witness:
  "\<not> v3z (ps_demo ! 1) - uFallSpeed u_demo * v4z (vs_demo ! 1) < 0 \<and>
   fst (dispatchUpdate hash_demo k_demo u_demo (ps_demo, vs_demo)) ! 1 =
     \<lparr>v3x = 0.5001, v3y = 0.5002, v3z = 0.001\<rparr>"
proof -
  have above: "\<not> v3z (ps_demo ! 1) - uFallSpeed u_demo * v4z (vs_demo ! 1) < 0"
    by (simp add: ps_demo_def vs_demo_def u_demo_def)
  have idx: "1 < cu_count k_demo" "1 < length ps_demo" "length vs_demo = length ps_demo"
    by (simp_all add: k_demo_def ps_demo_def vs_demo_def)
  from fall_without_respawn [of 1 k_demo ps_demo vs_demo u_demo hash_demo, OF idx above] above
  show ?thesis
    by (simp add: ps_demo_def vs_demo_def u_demo_def)
qed

lemma dispatchUpdate_vel: "snd (dispatchUpdate hash k u (ps, vs)) = vs"
proof (rule nth_equalityI)
  show "length (snd (dispatchUpdate hash k u (ps, vs))) = length vs"
    by (simp add: dispatchUpdate_def dispatch_length)
next
  fix i assume "i < length (snd (dispatchUpdate hash k u (ps, vs)))"
  then have "i < length vs" by (simp add: dispatchUpdate_def dispatch_length)
  then show "snd (dispatchUpdate hash k u (ps, vs)) ! i = vs ! i"
    by (simp add: dispatchUpdate_def dispatch_def updateFn_vel)
qed

lemma compute_update_velMem: "velMem (compute_update hash k s) = velMem s"
proof (cases "posMem s (cu_pos k)")
  case None
  then show ?thesis by (simp add: compute_update_def)
next
  case (Some ps)
  show ?thesis
  proof (cases "velMem s (cu_vel k)")
    case None
    with Some show ?thesis by (simp add: compute_update_def)
  next
    case (Some vs)
    with \<open>posMem s (cu_pos k) = Some ps\<close> show ?thesis
      by (simp add: compute_update_def Let_def dispatchUpdate_vel map_upd_triv)
  qed
qed

lemma frame_velMem: "velMem (frame hash m s) = velMem s"
  by (simp add: frame_def Let_def compute_update_velMem split: option.split)

lemma frames_velMem: "velMem (calls hash (map CallFrame ms) s) = velMem s"
  by (induction ms arbitrary: s) (simp_all add: frame_velMem)

text \<open>
  Claim C9 (velocity and seed untouched). The Update Kernel returns the velocity element
  of a particle as it read it; a dispatch leaves the whole velocity buffer as it was; and so
  do \<open>frame\<close> and any number of frames in a row, for every buffer in GPU memory.
\<close>
theorem update_keeps_velocity:
  "snd (updateFn hash k u i (p, v)) = v \<and>
   snd (dispatchUpdate hash k u (ps, vs)) = vs \<and>
   velMem (frame hash m s) = velMem s \<and>
   velMem (calls hash (map CallFrame ms) s) = velMem s"
  by (simp add: updateFn_vel dispatchUpdate_vel frame_velMem frames_velMem)

section \<open>The invariant of the particle system\<close>

lemma scene_refs_remove1:
  "concat (map obj_refs (remove1 (SnowMeshObj p) objs)) = remove1 p (concat (map obj_refs objs))"
proof (induction objs)
  case Nil
  then show ?case by simp
next
  case (Cons o1 objs)
  then show ?case by (cases o1) auto
qed

text \<open>Fields that a build does not touch, and what it sets.\<close>

lemma buildParticleSystem_built:
  assumes "renderer s = Some r" "scene s = Some objs"
  shows "buildParticleSystem rnd s =
     s\<lparr>posBuffer := Some (allocated s),
       velBuffer := Some (allocated s + 1),
       posMem := (posMem s)(allocated s \<mapsto> replicate (count_len (particleCount s)) zero3),
       velMem := (velMem s)(allocated s + 1 \<mapsto> replicate (count_len (particleCount s)) zero4),
       allocated := allocated s + 2,
       computeInit := Some \<lparr>ci_pos = allocated s, ci_vel = allocated s + 1,
          ci_count = count_len (particleCount s),
          ci_salt_ry = randUint (rnd 0), ci_salt_rz = randUint (rnd 1),
          ci_salt_rs = randUint (rnd 2)\<rparr>,
       computeUpdate := Some \<lparr>cu_pos = allocated s, cu_vel = allocated s + 1,
          cu_count = count_len (particleCount s),
          cu_salt_rx2 = randUint (rnd 3), cu_salt_ry2 = randUint (rnd 4)\<rparr>,
       snowMesh := Some \<lparr>sm_pos = allocated s, sm_count = particleCount s\<rparr>,
       scene := Some (objs @ [SnowMeshObj (allocated s)])\<rparr>"
  using assms by (simp add: buildParticleSystem_def Let_def)

lemma buildParticleSystem_inv:
  assumes "renderer s = Some r" "scene s = Some objs" "concat (map obj_refs objs) = []"
  shows "gpu_inv (buildParticleSystem rnd s)"
  using assms
  by (simp add: buildParticleSystem_built [OF assms(1,2)] gpu_inv_def Let_def scene_refs_def)

lemma init_ok:
  "init GpuAvailable rnd SnowGPU_new =
     ((buildFogOverlay (buildParticleSystem rnd
         (SnowGPU_new\<lparr>renderer := Some \<lparr>r_size = None, r_disposed = False\<rparr>,
                      scene := Some [],
                      camera := Some \<lparr>projectionMatrix = None\<rparr>\<rparr>)))
        \<lparr>initialized := True\<rparr>, Inr True)"
  by (simp add: init_def init_try_def Let_def)

lemma init_fail:
  assumes "env \<noteq> GpuAvailable"
  shows "snd (init env rnd SnowGPU_new) = Inr False"
    and "fst (init env rnd SnowGPU_new) =
           (if env = RendererInitRejects
            then SnowGPU_new\<lparr>renderer := Some \<lparr>r_size = None, r_disposed = False\<rparr>\<rparr>
            else SnowGPU_new)"
  using assms by (cases env; simp add: init_def init_try_def Let_def)+

lemma gpu_inv_init: "gpu_inv (fst (init env rnd SnowGPU_new))"
proof (cases "env = GpuAvailable")
  case True
  show ?thesis
    unfolding True init_ok
    by (simp add: buildParticleSystem_def buildFogOverlay_def SnowGPU_new_def Let_def
        gpu_inv_def scene_refs_def)
next
  case False
  show ?thesis
    unfolding init_fail(2) [OF False]
    by (simp add: gpu_inv_def SnowGPU_new_def)
qed

lemma dispatchInit_length:
  "length (fst (dispatchInit hash k u (ps, vs))) = length ps"
  "length (snd (dispatchInit hash k u (ps, vs))) = length vs"
  by (simp_all add: dispatchInit_def dispatch_length)

lemma dispatchUpdate_length:
  "length (fst (dispatchUpdate hash k u (ps, vs))) = length ps"
  "length (snd (dispatchUpdate hash k u (ps, vs))) = length vs"
  by (simp_all add: dispatchUpdate_def dispatch_length)

text \<open>A dispatch changes the contents of buffers and the list of commands, nothing else,
  and no buffer changes its length.\<close>

lemma compute_update_shape:
  "\<exists>pm vm. compute_update hash k s =
      s\<lparr>posMem := pm, velMem := vm,
        submitted := submitted s @ [ComputeUpdateCmd (cu_pos k)]\<rparr> \<and>
      (\<forall>a. map_option length (pm a) = map_option length (posMem s a)) \<and>
      (\<forall>a. map_option length (vm a) = map_option length (velMem s a))"
proof (cases "posMem s (cu_pos k)")
  case None
  then show ?thesis
    by (intro exI [of _ "posMem s"] exI [of _ "velMem s"]) (simp add: compute_update_def)
next
  case Ps: (Some ps)
  show ?thesis
  proof (cases "velMem s (cu_vel k)")
    case None
    with Ps show ?thesis
      by (intro exI [of _ "posMem s"] exI [of _ "velMem s"]) (simp add: compute_update_def)
  next
    case (Some vs)
    with Ps show ?thesis
      by (intro exI [of _ "(posMem s)(cu_pos k \<mapsto> fst (dispatchUpdate hash k (uni s) (ps, vs)))"]
                exI [of _ "(velMem s)(cu_vel k \<mapsto> snd (dispatchUpdate hash k (uni s) (ps, vs)))"])
         (simp add: compute_update_def Let_def dispatchUpdate_length)
  qed
qed

lemma compute_init_shape:
  "\<exists>pm vm. compute_init hash k s =
      s\<lparr>posMem := pm, velMem := vm,
        submitted := submitted s @ [ComputeInitCmd (ci_pos k)]\<rparr> \<and>
      (\<forall>a. map_option length (pm a) = map_option length (posMem s a)) \<and>
      (\<forall>a. map_option length (vm a) = map_option length (velMem s a))"
proof (cases "posMem s (ci_pos k)")
  case None
  then show ?thesis
    by (intro exI [of _ "posMem s"] exI [of _ "velMem s"]) (simp add: compute_init_def)
next
  case Ps: (Some ps)
  show ?thesis
  proof (cases "velMem s (ci_vel k)")
    case None
    with Ps show ?thesis
      by (intro exI [of _ "posMem s"] exI [of _ "velMem s"]) (simp add: compute_init_def)
  next
    case (Some vs)
    with Ps show ?thesis
      by (intro exI [of _ "(posMem s)(ci_pos k \<mapsto> fst (dispatchInit hash k (uni s) (ps, vs)))"]
                exI [of _ "(velMem s)(ci_vel k \<mapsto> snd (dispatchInit hash k (uni s) (ps, vs)))"])
         (simp add: compute_init_def Let_def dispatchInit_length)
  qed
qed

text \<open>The invariant reads the memory through the lengths of the buffers only, and does
  not read camera, latch, uniforms, fog, commands or the renderer's own fields.\<close>

lemma gpu_inv_mem:
  assumes "gpu_inv s"
    and "\<And>a. map_option length (pm a) = map_option length (posMem s a)"
    and "\<And>a. map_option length (vm a) = map_option length (velMem s a)"
  shows "gpu_inv (s\<lparr>posMem := pm, velMem := vm, submitted := sub\<rparr>)"
  using assms by (simp add: gpu_inv_def scene_refs_def Let_def split: option.splits)

lemma gpu_inv_compute_update:
  assumes "gpu_inv s"
  shows "gpu_inv (compute_update hash k s)"
proof -
  from compute_update_shape [of hash k s] obtain pm vm sub
    where eq: "compute_update hash k s = s\<lparr>posMem := pm, velMem := vm, submitted := sub\<rparr>"
      and pm: "\<And>a. map_option length (pm a) = map_option length (posMem s a)"
      and vm: "\<And>a. map_option length (vm a) = map_option length (velMem s a)"
    by blast
  show ?thesis
    unfolding eq using assms pm vm by (rule gpu_inv_mem)
qed

lemma gpu_inv_compute_init:
  assumes "gpu_inv s"
  shows "gpu_inv (compute_init hash k s)"
proof -
  from compute_init_shape [of hash k s] obtain pm vm sub
    where eq: "compute_init hash k s = s\<lparr>posMem := pm, velMem := vm, submitted := sub\<rparr>"
      and pm: "\<And>a. map_option length (pm a) = map_option length (posMem s a)"
      and vm: "\<And>a. map_option length (vm a) = map_option length (velMem s a)"
    by blast
  show ?thesis
    unfolding eq using assms pm vm by (rule gpu_inv_mem)
qed

lemma gpu_inv_camera: "gpu_inv (s\<lparr>camera := c\<rparr>) = gpu_inv s"
  by (simp add: gpu_inv_def scene_refs_def Let_def split: option.split)

lemma gpu_inv_submitted: "gpu_inv (s\<lparr>submitted := c\<rparr>) = gpu_inv s"
  by (simp add: gpu_inv_def scene_refs_def Let_def split: option.split)

lemma gpu_inv_initRan: "gpu_inv (s\<lparr>initRan := c\<rparr>) = gpu_inv s"
  by (simp add: gpu_inv_def scene_refs_def Let_def split: option.split)

lemma gpu_inv_uni: "gpu_inv (s\<lparr>uni := c\<rparr>) = gpu_inv s"
  by (simp add: gpu_inv_def scene_refs_def Let_def split: option.split)

lemma gpu_inv_frame: "gpu_inv s \<Longrightarrow> gpu_inv (frame hash m s)"
  by (simp add: frame_def Let_def gpu_inv_camera gpu_inv_submitted gpu_inv_compute_update
      split: option.split)

lemma gpu_inv_runInit: "gpu_inv s \<Longrightarrow> gpu_inv (runInit hash s)"
  by (simp add: runInit_def gpu_inv_initRan gpu_inv_compute_init split: option.split)

lemma gpu_inv_rebuild: "gpu_inv s \<Longrightarrow> gpu_inv (rebuildParticles rnd (s\<lparr>particleCount := n\<rparr>))"
proof (cases "posBuffer s")
  case None
  assume "gpu_inv s"
  with None show ?thesis
    by (simp add: gpu_inv_def rebuildParticles_def)
next
  case (Some p)
  assume inv: "gpu_inv s"
  with Some obtain r objs where r: "renderer s = Some r" and o: "scene s = Some objs"
    and m: "snowMesh s = Some \<lparr>sm_pos = p, sm_count = particleCount s\<rparr>"
    and refs: "concat (map obj_refs objs) = [p]"
    by (auto simp: gpu_inv_def Let_def scene_refs_def)
  let ?s1 = "s\<lparr>particleCount := n, scene := Some (remove1 (SnowMeshObj p) objs),
               initRan := False\<rparr>"
  have eq: "rebuildParticles rnd (s\<lparr>particleCount := n\<rparr>) = buildParticleSystem rnd ?s1"
    using o m by (simp add: rebuildParticles_def Let_def)
  have "gpu_inv (buildParticleSystem rnd ?s1)"
    by (rule buildParticleSystem_inv [where r = r and objs = "remove1 (SnowMeshObj p) objs"])
       (simp_all add: r scene_refs_remove1 refs)
  with eq show ?thesis by simp
qed

lemma gpu_inv_setDensity: "gpu_inv s \<Longrightarrow> gpu_inv (setDensity rnd d s)"
  by (simp add: setDensity_def gpu_inv_rebuild)

lemma gpu_inv_setFog: "gpu_inv s \<Longrightarrow> gpu_inv (setFog e s)"
  by (simp add: setFog_def Let_def gpu_inv_def scene_refs_def split: option.splits)

lemma gpu_inv_resize: "gpu_inv s \<Longrightarrow> gpu_inv (resize w h s)"
  by (simp add: resize_def gpu_inv_def scene_refs_def Let_def split: option.splits)

lemma gpu_inv_dispose: "gpu_inv s \<Longrightarrow> gpu_inv (dispose s)"
  by (simp add: dispose_def gpu_inv_def scene_refs_def Let_def split: option.splits)

lemma gpu_inv_call: "gpu_inv s \<Longrightarrow> gpu_inv (call hash c s)"
  by (cases c)
     (simp_all add: gpu_inv_frame gpu_inv_runInit gpu_inv_setDensity gpu_inv_setFog
        gpu_inv_resize gpu_inv_dispose gpu_inv_uni updateSpatial_def updateFlakeRadius_def
        updateWind_def updateFallSpeed_def setOpacity_def setColor_def setFogOpacity_def Let_def)

lemma gpu_inv_calls: "gpu_inv s \<Longrightarrow> gpu_inv (calls hash cs s)"
  by (induction cs arbitrary: s) (simp_all add: gpu_inv_call)

section \<open>Density and capability\<close>

lemma rebuild_particleCount: "particleCount (rebuildParticles rnd s) = particleCount s"
  by (simp add: rebuildParticles_def buildParticleSystem_def Let_def split: option.splits)

lemma strict_eq_same: "strict_eq a b \<Longrightarrow> a = b"
  by (cases a; cases b) simp_all

lemma strict_eq_refl: "strict_eq a a = (a \<noteq> NaNCount)"
  by (cases a) simp_all

lemma newCount_NaN: "(newCount d = NaNCount) = (d = NaN)"
  by (cases d) (simp_all add: newCount_def)

lemma setDensity_particleCount: "particleCount (setDensity rnd d s) = newCount d"
  by (auto simp: setDensity_def rebuild_particleCount dest: strict_eq_same)

lemma setDensity_same:
  "strict_eq (newCount d) (particleCount s) \<Longrightarrow> setDensity rnd d s = s"
  by (simp add: setDensity_def)

text \<open>
  Claim C10, as amended (the density setter is idempotent but for NaN). When the count
  that a density maps to is \<open>===\<close> to the current particle count, \<open>setDensity\<close> returns the
  object as it is: buffers, pipelines, mesh, scene, latch and GPU memory are the same, and
  no random number is drawn. Hence, for every density that is not NaN, the infinities
  included, a second call with the same density, whatever \<open>Math.random\<close> would give it,
  changes nothing after the first.
\<close>
theorem setDensity_idempotent:
  "(strict_eq (newCount d) (particleCount s) \<longrightarrow> setDensity rnd d s = s) \<and>
   (d \<noteq> NaN \<longrightarrow> setDensity rnd' d (setDensity rnd d s) = setDensity rnd d s)"
proof -
  have "setDensity rnd' d (setDensity rnd d s) = setDensity rnd d s" if "d \<noteq> NaN"
  proof (rule setDensity_same)
    from that have "newCount d \<noteq> NaNCount" by (simp add: newCount_NaN)
    then show "strict_eq (newCount d) (particleCount (setDensity rnd d s))"
      by (simp add: setDensity_particleCount strict_eq_refl)
  qed
  then show ?thesis by (simp add: setDensity_same)
qed

lemma newCount_zero: "newCount (Finite 0) = Count MIN_PARTICLE_COUNT"
  by (simp add: newCount_def)

lemma frame_not_ready: "initialized s = False \<Longrightarrow> frame hash m s = s"
  by (simp add: frame_def)

lemma runInit_no_pipeline: "computeInit s = None \<Longrightarrow> runInit hash s = s"
  by (simp add: runInit_def)

lemma runInit_latched: "initRan s \<Longrightarrow> runInit hash s = s"
  by (simp add: runInit_def)

lemma render_not_ready:
  "l_gpu L = Some g \<Longrightarrow> ready g = False \<Longrightarrow> render hash inp L = L"
  by (simp add: render_def)

lemma renders_not_ready:
  "l_gpu L = Some g \<Longrightarrow> ready g = False \<Longrightarrow> renders hash inps L = L"
  by (induction inps) (simp_all add: render_not_ready)

lemma per_frame_inert:
  assumes "initialized s = False" "computeInit s = None"
  shows "list_all per_frame cs \<Longrightarrow> calls hash cs s = s"
proof (induction cs)
  case Nil
  then show ?case by simp
next
  case (Cons c cs)
  then have "per_frame c" by simp
  then have "call hash c s = s"
    using assms by (cases c) (simp_all add: frame_not_ready runInit_no_pipeline)
  with Cons show ?case by simp
qed

lemma onAdd_fail:
  assumes "env \<noteq> GpuAvailable"
  shows "onAdd env rnd L = L\<lparr>l_map := True, l_gpu := Some (fst (init env rnd SnowGPU_new))\<rparr>"
  using init_fail(1) [OF assms] by (simp add: onAdd_def Let_def)

text \<open>
  Claim C7 (capability failure leaves the layer inert). When \<open>navigator.gpu\<close> is missing,
  or the renderer's constructor throws, or its \<open>init()\<close> rejects, the promise of \<open>init\<close> on
  a new object resolves to \<open>false\<close> and does not reject. No buffer is allocated and nothing
  is submitted to the GPU. Afterwards \<open>frame\<close> and \<open>runInit\<close> return the object unchanged,
  and so does any sequence of them; the layer that \<open>onAdd\<close> leaves holds this object, and
  any number of calls of its \<open>render\<close> leave the layer as it is, without a repaint request.
\<close>
theorem capability_failure_inert:
  assumes fail: "env \<noteq> GpuAvailable"
    and res: "init env rnd SnowGPU_new = (s', res)"
  shows "res = Inr False \<and>
         posBuffer s' = None \<and> velBuffer s' = None \<and> allocated s' = 0 \<and>
         posMem s' = Map.empty \<and> velMem s' = Map.empty \<and> submitted s' = [] \<and>
         ready s' = False \<and>
         frame hash m s' = s' \<and> runInit hash s' = s' \<and>
         (list_all per_frame cs \<longrightarrow> calls hash cs s' = s') \<and>
         l_gpu (onAdd env rnd L) = Some s' \<and>
         renders hash inps (onAdd env rnd L) = onAdd env rnd L"
proof -
  have r: "res = Inr False" using init_fail(1) [OF fail, of rnd] res by simp
  have s': "s' = (if env = RendererInitRejects
            then SnowGPU_new\<lparr>renderer := Some \<lparr>r_size = None, r_disposed = False\<rparr>\<rparr>
            else SnowGPU_new)"
    using init_fail(2) [OF fail, of rnd] res by simp
  have fields: "posBuffer s' = None" "velBuffer s' = None" "allocated s' = 0"
    "posMem s' = Map.empty" "velMem s' = Map.empty" "submitted s' = []"
    "initialized s' = False" "computeInit s' = None"
    by (simp_all add: s' SnowGPU_new_def)
  have g: "l_gpu (onAdd env rnd L) = Some s'"
    using res by (simp add: onAdd_fail [OF fail])
  have nr: "ready s' = False" using fields by (simp add: ready_def)
  show ?thesis
    using r fields nr g
    by (simp add: frame_not_ready runInit_no_pipeline per_frame_inert
        renders_not_ready [OF g nr])
qed

section \<open>Rebuilding on a change of density\<close>

lemma spawns_append: "spawns (s\<lparr>submitted := submitted s @ cs\<rparr>) = spawns s + length (filter is_spawn cs)"
  by (simp add: spawns_def)

lemma compute_update_fields:
  "posBuffer (compute_update hash k s) = posBuffer s"
  "particleCount (compute_update hash k s) = particleCount s"
  "initRan (compute_update hash k s) = initRan s"
  "submitted (compute_update hash k s) = submitted s @ [ComputeUpdateCmd (cu_pos k)]"
  using compute_update_shape [of hash k s] by auto

lemma compute_init_fields:
  "posBuffer (compute_init hash k s) = posBuffer s"
  "particleCount (compute_init hash k s) = particleCount s"
  "submitted (compute_init hash k s) = submitted s @ [ComputeInitCmd (ci_pos k)]"
  using compute_init_shape [of hash k s] by auto

lemma frame_fields:
  "posBuffer (frame hash m s) = posBuffer s"
  "particleCount (frame hash m s) = particleCount s"
  "initRan (frame hash m s) = initRan s"
  "spawns (frame hash m s) = spawns s"
  by (simp_all add: frame_def Let_def compute_update_fields spawns_def split: option.split)

lemma runInit_first:
  assumes "initRan s = False" "renderer s = Some r" "computeInit s = Some k"
  shows "submitted (runInit hash s) = submitted s @ [ComputeInitCmd (ci_pos k)]"
    and "initRan (runInit hash s)"
    and "posBuffer (runInit hash s) = posBuffer s"
    and "particleCount (runInit hash s) = particleCount s"
    and "spawns (runInit hash s) = spawns s + 1"
  using assms by (simp_all add: runInit_def compute_init_fields spawns_def)

lemma gpu_inv_pipeline:
  assumes "gpu_inv s" "posBuffer s = Some p"
  shows "\<exists>r k. renderer s = Some r \<and> computeInit s = Some k \<and> ci_pos k = p"
  using assms by (auto simp: gpu_inv_def Let_def)

lemma call_step:
  assumes inv: "gpu_inv s" and buf: "posBuffer s = Some p"
    and keep: "keeps_count (particleCount s) c"
  shows "posBuffer (call hash c s) = Some p \<and>
         particleCount (call hash c s) = particleCount s \<and>
         initRan (call hash c s) = (initRan s \<or> is_runInit c) \<and>
         spawns (call hash c s) = spawns s + (if initRan s = False \<and> is_runInit c then 1 else 0)"
proof (cases c)
  case (CallFrame m)
  then show ?thesis using buf by (simp add: frame_fields)
next
  case CallRunInit
  show ?thesis
  proof (cases "initRan s")
    case True
    then show ?thesis using buf CallRunInit by (simp add: runInit_latched)
  next
    case False
    from gpu_inv_pipeline [OF inv buf] obtain r k
      where "renderer s = Some r" "computeInit s = Some k" by blast
    from runInit_first [OF _ this, of hash] False buf CallRunInit
    show ?thesis by simp
  qed
next
  case (CallSetDensity rnd d)
  with keep have "strict_eq (newCount d) (particleCount s)" by (simp add: keeps_count_def)
  then show ?thesis using buf CallSetDensity by (simp add: setDensity_same)
qed (use buf in \<open>simp_all add: updateSpatial_def updateFlakeRadius_def updateWind_def
      updateFallSpeed_def setOpacity_def setColor_def setFog_def setFogOpacity_def
      resize_def dispose_def Let_def spawns_def split: option.split\<close>)

lemma calls_steps:
  assumes "gpu_inv s" "posBuffer s = Some p" "list_all (keeps_count (particleCount s)) cs"
  shows "posBuffer (calls hash cs s) = Some p \<and>
         particleCount (calls hash cs s) = particleCount s \<and>
         initRan (calls hash cs s) = (initRan s \<or> list_ex is_runInit cs) \<and>
         spawns (calls hash cs s) =
           spawns s + (if initRan s = False \<and> list_ex is_runInit cs then 1 else 0)"
  using assms
proof (induction cs arbitrary: s)
  case Nil
  then show ?case by simp
next
  case (Cons c cs)
  from Cons.prems have keep: "keeps_count (particleCount s) c"
    and rest: "list_all (keeps_count (particleCount s)) cs" by simp_all
  note step = call_step [OF Cons.prems(1,2) keep, of hash]
  have inv': "gpu_inv (call hash c s)" by (rule gpu_inv_call [OF Cons.prems(1)])
  have rest': "list_all (keeps_count (particleCount (call hash c s))) cs"
    using rest step by simp
  from Cons.IH [OF inv' _ rest'] step
  show ?case by auto
qed

lemma setDensity_changed:
  assumes inv: "gpu_inv s" and buf: "posBuffer s = Some p"
    and diff: "strict_eq (newCount d) (particleCount s) = False"
  shows "posBuffer (setDensity rnd d s) = Some (allocated s)"
    and "velBuffer (setDensity rnd d s) = Some (allocated s + 1)"
    and "posMem (setDensity rnd d s) =
           (posMem s)(allocated s \<mapsto> replicate (count_len (newCount d)) zero3)"
    and "velMem (setDensity rnd d s) =
           (velMem s)(allocated s + 1 \<mapsto> replicate (count_len (newCount d)) zero4)"
    and "allocated (setDensity rnd d s) = allocated s + 2"
    and "initRan (setDensity rnd d s) = False"
    and "submitted (setDensity rnd d s) = submitted s"
    and "renderer (setDensity rnd d s) = renderer s"
    and "initialized (setDensity rnd d s) = initialized s"
proof -
  from inv buf obtain r objs where r: "renderer s = Some r" and o: "scene s = Some objs"
    and m: "snowMesh s = Some \<lparr>sm_pos = p, sm_count = particleCount s\<rparr>"
    by (auto simp: gpu_inv_def Let_def)
  have eq: "setDensity rnd d s =
      buildParticleSystem rnd
        (s\<lparr>particleCount := newCount d, scene := Some (remove1 (SnowMeshObj p) objs),
           initRan := False\<rparr>)"
    using diff o m by (simp add: setDensity_def rebuildParticles_def Let_def)
  show "posBuffer (setDensity rnd d s) = Some (allocated s)"
    and "velBuffer (setDensity rnd d s) = Some (allocated s + 1)"
    and "posMem (setDensity rnd d s) =
           (posMem s)(allocated s \<mapsto> replicate (count_len (newCount d)) zero3)"
    and "velMem (setDensity rnd d s) =
           (velMem s)(allocated s + 1 \<mapsto> replicate (count_len (newCount d)) zero4)"
    and "allocated (setDensity rnd d s) = allocated s + 2"
    and "initRan (setDensity rnd d s) = False"
    and "submitted (setDensity rnd d s) = submitted s"
    and "renderer (setDensity rnd d s) = renderer s"
    and "initialized (setDensity rnd d s) = initialized s"
    unfolding eq by (simp_all add: buildParticleSystem_def Let_def r)
qed

text \<open>After a call the position buffer is the same or a newer one, so the object never
  refers to a buffer older than one it has held.\<close>

lemma gpu_inv_refs:
  assumes "gpu_inv t" "posBuffer t = Some q"
  shows "set (buffer_refs t) = {q, q + 1}"
  using assms by (auto simp: gpu_inv_def buffer_refs_def Let_def)

lemma call_posBuffer:
  assumes inv: "gpu_inv t" and buf: "posBuffer t = Some q"
  shows "\<exists>q'. posBuffer (call hash c t) = Some q' \<and> q \<le> q'"
proof (cases "changes_count (particleCount t) c")
  case False
  then have "keeps_count (particleCount t) c" by (simp add: keeps_count_def)
  from call_step [OF inv buf this, of hash] show ?thesis by simp
next
  case True
  then obtain rnd d where c: "c = CallSetDensity rnd d" by (cases c) simp_all
  with True have diff: "strict_eq (newCount d) (particleCount t) = False" by simp
  have "q + 1 < allocated t" using inv buf by (simp add: gpu_inv_def Let_def)
  then show ?thesis
    by (simp add: c setDensity_changed(1) [OF inv buf diff])
qed

lemma calls_posBuffer:
  assumes "gpu_inv t" "posBuffer t = Some q"
  shows "\<exists>q'. posBuffer (calls hash cs t) = Some q' \<and> q \<le> q'"
  using assms
proof (induction cs arbitrary: t q)
  case Nil
  then show ?case by simp
next
  case (Cons c cs)
  from call_posBuffer [OF Cons.prems, of hash c] obtain q1
    where q1: "posBuffer (call hash c t) = Some q1" "q \<le> q1" by blast
  from Cons.IH [OF gpu_inv_call [OF Cons.prems(1)] q1(1)] obtain q'
    where "posBuffer (calls hash cs (call hash c t)) = Some q'" "q1 \<le> q'" by blast
  with q1(2) show ?case by auto
qed

lemma later_refs:
  assumes inv: "gpu_inv t" and buf: "posBuffer t = Some q"
  shows "list_all (\<lambda>a. q \<le> a) (buffer_refs (calls hash cs t))"
proof -
  from calls_posBuffer [OF inv buf, of hash cs] obtain q'
    where q': "posBuffer (calls hash cs t) = Some q'" "q \<le> q'" by blast
  from gpu_inv_refs [OF gpu_inv_calls [OF inv] q'(1)] q'(2)
  show ?thesis by (auto simp: list_all_iff)
qed

text \<open>
  Claim C5 (density rebuild). For every density, \<open>setDensity\<close> leaves \<open>particleCount\<close> at
  \<open>round (MIN + clamp d * (MAX - MIN))\<close>, which is \<open>MAX_PARTICLE_COUNT\<close> at plus infinity,
  \<open>MIN_PARTICLE_COUNT\<close> at minus infinity and NaN at NaN; at density 0 it is
  \<open>MIN_PARTICLE_COUNT\<close>, which is not zero. When the particle system has buffers and the
  mapped count is not \<open>===\<close> to the current one, the call allocates two new buffers, zero-filled and of the new count, at addresses
  above the old ones; the object, its pipelines, its mesh and its scene then refer to the
  new buffers only, and after any later calls to these or newer ones, never to the old;
  the latch is open, and the next \<open>runInit\<close> dispatches the Spawn Kernel over the new
  position buffer.
\<close>
theorem density_rebuild:
  "particleCount (setDensity rnd (Finite x) s) =
     Count (round (real_of_int MIN_PARTICLE_COUNT +
                   max 0 (min 1 x) * real_of_int (MAX_PARTICLE_COUNT - MIN_PARTICLE_COUNT))) \<and>
   particleCount (setDensity rnd PosInfinity s) = Count MAX_PARTICLE_COUNT \<and>
   particleCount (setDensity rnd NegInfinity s) = Count MIN_PARTICLE_COUNT \<and>
   particleCount (setDensity rnd NaN s) = NaNCount \<and>
   particleCount (setDensity rnd (Finite 0) s) = Count MIN_PARTICLE_COUNT \<and>
   0 < MIN_PARTICLE_COUNT \<and>
   (gpu_inv s \<and> posBuffer s = Some p \<and> strict_eq (newCount d) (particleCount s) = False \<longrightarrow>
      posBuffer (setDensity rnd d s) = Some (allocated s) \<and>
      velBuffer (setDensity rnd d s) = Some (allocated s + 1) \<and>
      p + 1 < allocated s \<and>
      set (buffer_refs (setDensity rnd d s)) = {allocated s, allocated s + 1} \<and>
      list_all (\<lambda>a. allocated s \<le> a) (buffer_refs (calls hash cs (setDensity rnd d s))) \<and>
      posMem (setDensity rnd d s) (allocated s) = Some (replicate (count_len (newCount d)) zero3) \<and>
      velMem (setDensity rnd d s) (allocated s + 1) = Some (replicate (count_len (newCount d)) zero4) \<and>
      initRan (setDensity rnd d s) = False \<and>
      submitted (runInit hash (setDensity rnd d s)) = submitted s @ [ComputeInitCmd (allocated s)] \<and>
      gpu_inv (setDensity rnd d s))"
proof -
  have count: "particleCount (setDensity rnd (Finite x) s) =
     Count (round (real_of_int MIN_PARTICLE_COUNT +
                   max 0 (min 1 x) * real_of_int (MAX_PARTICLE_COUNT - MIN_PARTICLE_COUNT)))"
    "particleCount (setDensity rnd PosInfinity s) = Count MAX_PARTICLE_COUNT"
    "particleCount (setDensity rnd NegInfinity s) = Count MIN_PARTICLE_COUNT"
    "particleCount (setDensity rnd NaN s) = NaNCount"
    by (simp_all add: setDensity_particleCount newCount_def)
  have zero: "particleCount (setDensity rnd (Finite 0) s) = Count MIN_PARTICLE_COUNT"
    by (simp add: setDensity_particleCount newCount_zero)
  have pos: "0 < MIN_PARTICLE_COUNT" by (simp add: MIN_PARTICLE_COUNT_def)
  have rebuilt: ?thesis if inv: "gpu_inv s" and buf: "posBuffer s = Some p"
    and diff: "strict_eq (newCount d) (particleCount s) = False"
  proof -
    let ?s' = "setDensity rnd d s"
    note eq = setDensity_changed [OF inv buf diff, of rnd]
    have inv': "gpu_inv ?s'" by (rule gpu_inv_setDensity [OF inv])
    have old: "p + 1 < allocated s" using inv buf by (simp add: gpu_inv_def Let_def)
    have pb: "posBuffer ?s' = Some (allocated s)" by (simp add: eq)
    from inv buf obtain r where r: "renderer s = Some r" by (auto simp: gpu_inv_def Let_def)
    have fields: "velBuffer ?s' = Some (allocated s + 1)"
      "posMem ?s' (allocated s) = Some (replicate (count_len (newCount d)) zero3)"
      "velMem ?s' (allocated s + 1) = Some (replicate (count_len (newCount d)) zero4)"
      "initRan ?s' = False" "submitted ?s' = submitted s" "renderer ?s' = Some r"
      by (simp_all add: eq r)
    from gpu_inv_pipeline [OF inv' pb] obtain r' k
      where k: "renderer ?s' = Some r'" "computeInit ?s' = Some k" "ci_pos k = allocated s"
      by blast
    have spawn: "submitted (runInit hash ?s') = submitted s @ [ComputeInitCmd (allocated s)]"
      using runInit_first(1) [OF fields(4) k(1,2), of hash] k(3) fields(5) by simp
    have refs: "set (buffer_refs ?s') = {allocated s, allocated s + 1}"
      using gpu_inv_refs [OF inv' pb] by simp
    have later: "list_all (\<lambda>a. allocated s \<le> a) (buffer_refs (calls hash cs ?s'))"
      by (rule later_refs [OF inv' pb])
    show ?thesis
      using count zero pos pb fields old spawn refs later inv' by simp
  qed
  show ?thesis
  proof (cases "gpu_inv s \<and> posBuffer s = Some p \<and>
      strict_eq (newCount d) (particleCount s) = False")
    case True
    then show ?thesis using rebuilt by blast
  next
    case False
    then show ?thesis using count zero pos by blast
  qed
qed

section \<open>The spawn latch\<close>

lemma calls_append: "calls hash (cs @ ds) s = calls hash ds (calls hash cs s)"
  by (induction cs arbitrary: s) simp_all

lemma call_initialized: "initialized (call hash c s) = initialized s"
proof (cases c)
  case (CallFrame m)
  have "initialized (compute_update hash k t) = initialized t" for k t
    using compute_update_shape [of hash k t] by auto
  then show ?thesis using CallFrame by (simp add: frame_def Let_def split: option.split)
next
  case CallRunInit
  have "initialized (compute_init hash k t) = initialized t" for k t
    using compute_init_shape [of hash k t] by auto
  then show ?thesis using CallRunInit by (simp add: runInit_def split: option.split)
next
  case (CallSetDensity rnd d)
  then show ?thesis
    by (simp add: setDensity_def rebuildParticles_def buildParticleSystem_def Let_def
        split: option.split)
qed (simp_all add: updateSpatial_def updateFlakeRadius_def updateWind_def
      updateFallSpeed_def setOpacity_def setColor_def setFog_def setFogOpacity_def
      resize_def dispose_def Let_def split: option.split)

lemma calls_initialized: "initialized (calls hash cs s) = initialized s"
  by (induction cs arbitrary: s) (simp_all add: call_initialized)

text \<open>One \<open>render\<close> of a ready layer is six calls on its particle system, \<open>runInit\<close> among
  them and \<open>setDensity\<close> not.\<close>

lemma render_calls:
  assumes "l_gpu L = Some g" "ready g" "l_map L"
  shows "\<exists>cs. l_gpu (render hash inp L) = Some (calls hash cs g) \<and>
              l_map (render hash inp L) \<and>
              list_ex is_runInit cs \<and> list_all (keeps_count n) cs"
proof -
  let ?L1 = "if l_lastFrameTime L > 0 \<and> fi_now inp - l_lastFrameTime L > 0
             then L\<lparr>l_fps := l_fps L * 0.9 + (1000 / (fi_now inp - l_lastFrameTime L)) * 0.1\<rparr>
             else L"
  let ?fps = "max 10 (min 120 (l_fps ?L1))"
  let ?merc = "lngLatToMercator (fi_lng inp) (fi_lat inp)"
  let ?cs = "[CallUpdateSpatial (fst ?merc) (snd ?merc) (fi_zoom inp) (fi_clientWidth inp),
              CallUpdateFlakeRadius (l_flakeSize L) (fi_zoom inp) (fi_dpr inp),
              CallUpdateWind (fst (l_direction L)) (snd (l_direction L)) (fi_zoom inp) ?fps,
              CallUpdateFallSpeed (l_intensity L) (fi_zoom inp) ?fps,
              CallRunInit,
              CallFrame (fi_mainMatrix inp)]"
  have "l_gpu (render hash inp L) = Some (calls hash ?cs g)" "l_map (render hash inp L)"
    using assms by (simp_all add: render_def Let_def)
  moreover have "list_ex is_runInit ?cs" "list_all (keeps_count n) ?cs"
    by (simp_all add: keeps_count_def)
  ultimately show ?thesis by blast
qed

lemma renders_calls:
  assumes "l_gpu L = Some g" "ready g" "l_map L"
  shows "\<exists>cs. l_gpu (renders hash inps L) = Some (calls hash cs g) \<and>
              list_ex is_runInit cs = (inps \<noteq> []) \<and> list_all (keeps_count n) cs"
  using assms
proof (induction inps arbitrary: L g)
  case Nil
  then show ?case by (intro exI [of _ "[]"]) simp
next
  case (Cons inp inps)
  from render_calls [OF Cons.prems, of hash inp n] obtain cs
    where cs: "l_gpu (render hash inp L) = Some (calls hash cs g)"
      "l_map (render hash inp L)" "list_ex is_runInit cs" "list_all (keeps_count n) cs"
    by blast
  have rdy: "ready (calls hash cs g)"
    using Cons.prems(2) by (simp add: ready_def calls_initialized)
  from Cons.IH [OF cs(1) rdy cs(2)] obtain ds
    where ds: "l_gpu (renders hash inps (render hash inp L)) = Some (calls hash ds (calls hash cs g))"
      "list_all (keeps_count n) ds"
    by blast
  show ?case
    using ds cs(3,4) by (intro exI [of _ "cs @ ds"]) (simp add: calls_append)
qed

lemma frames_spawn_once:
  assumes inv: "gpu_inv s" and buf: "posBuffer s = Some p" and fresh: "initRan s = False"
    and layer: "l_gpu L = Some s" "ready s" "l_map L" and frames: "inps \<noteq> []"
  shows "map_option spawns (l_gpu (renders hash inps L)) = Some (spawns s + 1)"
proof -
  from renders_calls [OF layer, of hash inps "particleCount s"] frames obtain cs
    where cs: "l_gpu (renders hash inps L) = Some (calls hash cs s)"
      "list_ex is_runInit cs" "list_all (keeps_count (particleCount s)) cs"
    by blast
  from calls_steps [OF inv buf cs(3), of hash] fresh cs(2)
  have "spawns (calls hash cs s) = spawns s + 1" by simp
  with cs(1) show ?thesis by simp
qed

lemma init_ok_fields:
  "snd (init GpuAvailable rnd SnowGPU_new) = Inr True"
  "posBuffer (fst (init GpuAvailable rnd SnowGPU_new)) = Some 0"
  "initRan (fst (init GpuAvailable rnd SnowGPU_new)) = False"
  "initialized (fst (init GpuAvailable rnd SnowGPU_new)) = True"
  "submitted (fst (init GpuAvailable rnd SnowGPU_new)) = []"
  unfolding init_ok
  by (simp_all add: buildParticleSystem_def buildFogOverlay_def SnowGPU_new_def Let_def)

text \<open>After a successful \<open>onAdd\<close> the particle system is ready, its buffers are allocated,
  the latch is open and nothing has been dispatched.\<close>

lemma onAdd_ok:
  "\<exists>g p. l_gpu (onAdd GpuAvailable rnd L) = Some g \<and> l_map (onAdd GpuAvailable rnd L) \<and>
         gpu_inv g \<and> posBuffer g = Some p \<and> initRan g = False \<and> ready g \<and> spawns g = 0"
proof -
  let ?g0 = "fst (init GpuAvailable rnd SnowGPU_new)"
  let ?g1 = "setDensity (\<lambda>k. rnd (k + 5)) (l_density L) ?g0"
  let ?cs = "[CallSetOpacity (l_opacity L), CallSetFog (l_fog L),
              CallSetFogOpacity (l_fogOpacity L)]"
  let ?h = "\<lambda>w::u32. 0::real"
  have inv0: "gpu_inv ?g0" by (rule gpu_inv_init)
  have inv1: "gpu_inv ?g1" by (rule gpu_inv_setDensity [OF inv0])
  have g1: "(\<exists>p. posBuffer ?g1 = Some p) \<and> initRan ?g1 = False \<and> submitted ?g1 = []"
  proof (cases "strict_eq (newCount (l_density L)) (particleCount ?g0)")
    case True
    then show ?thesis by (simp add: setDensity_same init_ok_fields)
  next
    case False
    then have diff: "strict_eq (newCount (l_density L)) (particleCount ?g0) = False"
      by simp
    note eq = setDensity_changed [OF inv0 init_ok_fields(2) diff]
    show ?thesis by (simp add: eq init_ok_fields)
  qed
  then obtain p where p: "posBuffer ?g1 = Some p" by blast
  have keep: "list_all (keeps_count (particleCount ?g1)) ?cs"
    by (simp add: keeps_count_def)
  note steps = calls_steps [OF inv1 p keep, of ?h]
  have gpu: "l_gpu (onAdd GpuAvailable rnd L) = Some (calls ?h ?cs ?g1)"
    "l_map (onAdd GpuAvailable rnd L)"
    by (simp_all add: onAdd_def Let_def init_ok_fields(1))
  have rdy: "ready (calls ?h ?cs ?g1)"
    by (simp only: ready_def calls_initialized)
       (simp add: call_initialized [of ?h "CallSetDensity r d" for r d, simplified]
          init_ok_fields)
  have sp: "spawns ?g1 = 0" using g1 by (simp add: spawns_def)
  show ?thesis
    using gpu gpu_inv_calls [OF inv1, of ?h ?cs] steps g1 rdy sp
    by (intro exI [of _ "calls ?h ?cs ?g1"] exI [of _ p]) simp
qed

text \<open>
  Claim C8 (the Spawn Kernel runs once per allocation). Take the particle system with its
  buffers allocated and the latch open, as \<open>init\<close> and every rebuild leave it, and any
  sequence of calls none of which is a \<open>setDensity\<close> to another count. The first \<open>runInit\<close>
  dispatches the Spawn Kernel over the current position buffer and closes the latch, and a
  second \<open>runInit\<close> changes nothing. Over the whole sequence the Spawn Kernel is dispatched
  once if the sequence has a \<open>runInit\<close> and not at all otherwise, the latch is closed exactly
  when it has one, and the buffers stay the same. A \<open>setDensity\<close> to another count, after the
  sequence, opens the latch again and allocates new buffers. For the layer: any one or more
  calls of \<open>render\<close> on the ready layer dispatch the Spawn Kernel exactly once.
\<close>
theorem spawn_once_per_allocation:
  assumes inv: "gpu_inv s" and buf: "posBuffer s = Some p" and fresh: "initRan s = False"
    and keep: "list_all (keeps_count (particleCount s)) cs"
  shows "submitted (runInit hash s) = submitted s @ [ComputeInitCmd p] \<and>
         initRan (runInit hash s) \<and>
         runInit hash (runInit hash s) = runInit hash s \<and>
         spawns (calls hash cs s) = spawns s + (if list_ex is_runInit cs then 1 else 0) \<and>
         initRan (calls hash cs s) = list_ex is_runInit cs \<and>
         posBuffer (calls hash cs s) = Some p \<and>
         (changes_count (particleCount s) c \<longrightarrow>
            initRan (call hash c (calls hash cs s)) = False \<and>
            posBuffer (call hash c (calls hash cs s)) = Some (allocated (calls hash cs s)) \<and>
            p < allocated (calls hash cs s)) \<and>
         (l_gpu L = Some s \<and> ready s \<and> l_map L \<and> inps \<noteq> [] \<longrightarrow>
            map_option spawns (l_gpu (renders hash inps L)) = Some (spawns s + 1))"
proof -
  from gpu_inv_pipeline [OF inv buf] obtain r k
    where k: "renderer s = Some r" "computeInit s = Some k" "ci_pos k = p" by blast
  note first = runInit_first [OF fresh k(1,2), of hash]
  note steps = calls_steps [OF inv buf keep, of hash]
  let ?t = "calls hash cs s"
  have inv_t: "gpu_inv ?t" by (rule gpu_inv_calls [OF inv])
  have reset: "initRan (call hash c ?t) = False \<and>
      posBuffer (call hash c ?t) = Some (allocated ?t) \<and> p < allocated ?t"
    if ch: "changes_count (particleCount s) c"
  proof -
    from ch obtain rnd d where c: "c = CallSetDensity rnd d" by (cases c) simp_all
    with ch steps have diff: "strict_eq (newCount d) (particleCount ?t) = False" by simp
    have bt: "posBuffer ?t = Some p" using steps by simp
    note eq = setDensity_changed [OF inv_t bt diff, of rnd]
    have "p + 1 < allocated ?t" using inv_t bt by (simp add: gpu_inv_def Let_def)
    then show ?thesis by (simp add: c eq)
  qed
  have layer: "map_option spawns (l_gpu (renders hash inps L)) = Some (spawns s + 1)"
    if "l_gpu L = Some s" "ready s" "l_map L" "inps \<noteq> []"
    using frames_spawn_once [OF inv buf fresh that] .
  show ?thesis
    using first(1,2) k(3) steps fresh reset layer by (simp add: runInit_latched)
qed

section \<open>The Spawn Kernel\<close>

lemma randUint_bound:
  assumes "0 \<le> r" "r < 1"
  shows "unat (randUint r) < 0xffffff"
proof -
  define n where "n = \<lfloor>r * 0xffffff\<rfloor>"
  have lo: "0 \<le> n" using assms by (simp add: n_def)
  have "r * 0xffffff < 0xffffff" using assms by simp
  then have hi: "n < 0xffffff" by (simp add: n_def floor_less_iff)
  have "unat (word_of_int n :: u32) = nat (n mod 2 ^ 32)"
    by (simp add: unat_eq_nat_uint uint_word_of_int)
  also have "\<dots> = nat n" using lo hi by simp
  also have "\<dots> < 0xffffff" using lo hi by linarith
  finally show ?thesis by (simp add: randUint_def n_def)
qed

lemma dispatchInit_nth:
  assumes "i < ci_count k" "i < length ps" "length vs = length ps"
  shows "fst (dispatchInit hash k u (ps, vs)) ! i = fst (initFn hash k u (of_nat i))"
    and "snd (dispatchInit hash k u (ps, vs)) ! i = snd (initFn hash k u (of_nat i))"
  using assms by (simp_all add: dispatchInit_def dispatch_nth_pos dispatch_nth_vel)

text \<open>
  Claim C4, as amended (the Spawn Kernel's assignment). For the spawn pipeline that
  \<open>buildParticleSystem\<close> makes from draws of \<open>Math.random\<close> in \<open>[0, 1)\<close>, and a hash with values
  in \<open>[0, 1)\<close>: the first hashed value is the hash of the particle index itself and the other
  three are hashes of the index plus a salt \<open>floor (draw * 0xffffff)\<close>, each below
  \<open>0xffffff\<close>, added modulo \<open>2^32\<close>; nothing makes the salts odd or distinct. The dispatch
  assigns to particle \<open>i\<close> the position \<open>x = centerX + rand1 * 2 * halfSpan - halfSpan\<close>,
  \<open>y = centerY + rand2 * 2 * halfSpan - halfSpan\<close>, \<open>altitude = rand3 * altSpan\<close>, and the
  velocity element \<open>(0, 0, rand4 * 0.5 + 0.5, rand4)\<close>, whose speed multiplier is at least
  \<open>0.5\<close> and below \<open>1\<close>.
\<close>
theorem spawn_assignment:
  assumes hash_range: "\<And>w. 0 \<le> hash w \<and> hash w < 1"
    and draws: "\<And>j. 0 \<le> rnd j \<and> rnd j < 1"
    and sys: "renderer s = Some r" "scene s = Some objs"
    and built: "computeInit (buildParticleSystem rnd s) = Some k"
    and idx: "i < ci_count k" "i < length ps" "length vs = length ps"
  shows "initSalts k = [0, randUint (rnd 0), randUint (rnd 1), randUint (rnd 2)] \<and>
         list_all (\<lambda>w. unat w < 0xffffff) (initSalts k) \<and>
         initRands hash k (of_nat i) =
           [hash (of_nat i), hash (of_nat i + randUint (rnd 0)),
            hash (of_nat i + randUint (rnd 1)), hash (of_nat i + randUint (rnd 2))] \<and>
         list_all (\<lambda>x. 0 \<le> x \<and> x < 1) (initRands hash k (of_nat i)) \<and>
         fst (dispatchInit hash k u (ps, vs)) ! i =
           \<lparr>v3x = fst (uCenter u) + initRands hash k (of_nat i) ! 0 * 2 * uHalfSpan u - uHalfSpan u,
            v3y = snd (uCenter u) + initRands hash k (of_nat i) ! 1 * 2 * uHalfSpan u - uHalfSpan u,
            v3z = initRands hash k (of_nat i) ! 2 * uAltSpan u\<rparr> \<and>
         snd (dispatchInit hash k u (ps, vs)) ! i =
           \<lparr>v4x = 0, v4y = 0, v4z = initRands hash k (of_nat i) ! 3 * 0.5 + 0.5,
            v4w = initRands hash k (of_nat i) ! 3\<rparr> \<and>
         0.5 \<le> v4z (snd (dispatchInit hash k u (ps, vs)) ! i) \<and>
         v4z (snd (dispatchInit hash k u (ps, vs)) ! i) < 1"
proof -
  have k: "k = \<lparr>ci_pos = allocated s, ci_vel = allocated s + 1,
          ci_count = count_len (particleCount s),
          ci_salt_ry = randUint (rnd 0), ci_salt_rz = randUint (rnd 1),
          ci_salt_rs = randUint (rnd 2)\<rparr>"
    using built by (simp add: buildParticleSystem_built [OF sys])
  have salts: "initSalts k = [0, randUint (rnd 0), randUint (rnd 1), randUint (rnd 2)]"
    by (simp add: initSalts_def k)
  have bounds: "list_all (\<lambda>w. unat w < 0xffffff) (initSalts k)"
    using draws by (simp add: salts randUint_bound)
  have rands: "initRands hash k (of_nat i) =
           [hash (of_nat i), hash (of_nat i + randUint (rnd 0)),
            hash (of_nat i + randUint (rnd 1)), hash (of_nat i + randUint (rnd 2))]"
    by (simp add: initRands_def k)
  have unit: "list_all (\<lambda>x. 0 \<le> x \<and> x < 1) (initRands hash k (of_nat i))"
    using hash_range by (simp add: rands)
  have rs: "0 \<le> hash (of_nat i + randUint (rnd 2))" "hash (of_nat i + randUint (rnd 2)) < 1"
    using hash_range by simp_all
  have p: "fst (initFn hash k u (of_nat i)) =
           \<lparr>v3x = fst (uCenter u) + initRands hash k (of_nat i) ! 0 * 2 * uHalfSpan u - uHalfSpan u,
            v3y = snd (uCenter u) + initRands hash k (of_nat i) ! 1 * 2 * uHalfSpan u - uHalfSpan u,
            v3z = initRands hash k (of_nat i) ! 2 * uAltSpan u\<rparr>"
    by (simp add: initFn_def Let_def initRands_def algebra_simps)
  have v: "snd (initFn hash k u (of_nat i)) =
           \<lparr>v4x = 0, v4y = 0, v4z = initRands hash k (of_nat i) ! 3 * 0.5 + 0.5,
            v4w = initRands hash k (of_nat i) ! 3\<rparr>"
    by (simp add: initFn_def Let_def initRands_def)
  have mul: "0.5 \<le> v4z (snd (initFn hash k u (of_nat i)))"
    "v4z (snd (initFn hash k u (of_nat i))) < 1"
    using rs unfolding v rands by simp_all
  show ?thesis
    using salts bounds rands unit p v mul
    unfolding dispatchInit_nth [OF idx] by simp
qed

section \<open>Wind and projection\<close>

lemma wind_norm:
  fixes m t :: real
  shows "(sin t * m)\<^sup>2 + (cos t * m)\<^sup>2 = m\<^sup>2"
proof -
  have "(sin t * m)\<^sup>2 + (cos t * m)\<^sup>2 = ((sin t)\<^sup>2 + (cos t)\<^sup>2) * m\<^sup>2"
    by (simp only: power_mult_distrib distrib_right)
  also have "\<dots> = 1 * m\<^sup>2"
    by (simp only: sin_cos_squared_add)
  finally show ?thesis by simp
qed

text \<open>
  Claim C6 (wind conversion). \<open>updateWind\<close> sets the wind uniforms to the sine and the cosine
  of the azimuth in radians, each times \<open>speed * (1 / (512 * 2^zoom)) / fps\<close>; the vector
  has that magnitude; and at azimuth 0 the X component is 0 and the Y component is the
  whole magnitude.
\<close>
theorem wind_conversion:
  "uWindX (uni (updateWind a sp z f s)) = sin (a * pi / 180) * (sp * (1 / (512 * 2 powr z)) / f) \<and>
   uWindY (uni (updateWind a sp z f s)) = cos (a * pi / 180) * (sp * (1 / (512 * 2 powr z)) / f) \<and>
   (uWindX (uni (updateWind a sp z f s)))\<^sup>2 + (uWindY (uni (updateWind a sp z f s)))\<^sup>2 =
     (sp * (1 / (512 * 2 powr z)) / f)\<^sup>2 \<and>
   uWindX (uni (updateWind 0 sp z f s)) = 0 \<and>
   uWindY (uni (updateWind 0 sp z f s)) = sp * (1 / (512 * 2 powr z)) / f"
proof -
  define m where "m = sp * (1 / (512 * 2 powr z)) / f"
  have x: "uWindX (uni (updateWind b sp z f s)) = sin (b * pi / 180) * m" for b
    by (simp add: updateWind_def pxToMerc_def Let_def m_def)
  have y: "uWindY (uni (updateWind b sp z f s)) = cos (b * pi / 180) * m" for b
    by (simp add: updateWind_def pxToMerc_def Let_def m_def)
  have "sin (a * pi / 180) * m = sin (a * pi / 180) * m \<and>
        cos (a * pi / 180) * m = cos (a * pi / 180) * m \<and>
        (sin (a * pi / 180) * m)\<^sup>2 + (cos (a * pi / 180) * m)\<^sup>2 = m\<^sup>2 \<and>
        sin (0 * pi / 180) * m = 0 \<and> cos (0 * pi / 180) * m = m"
    by (simp add: wind_norm)
  then show ?thesis
    unfolding x y unfolding m_def .
qed

lemma billboard_eq:
  "billboard_positionNode M r vw vh p l =
     \<lparr>v3x = v3x (ndc_of M p) + v3x l * (r * 2 / vw),
      v3y = v3y (ndc_of M p) + v3y l * (r * 2 / vh),
      v3z = v4z (clip_of M p) / v4w (clip_of M p)\<rparr>"
  by (simp add: billboard_positionNode_def ndc_of_def clip_of_def dot3_def Let_def)

text \<open>
  Claim C3 (billboard size invariance). The screen-space billboard position node puts a
  vertex at the normalised device coordinates of the particle's centre plus, on each axis,
  the local offset times \<open>uRadiusPx * 2 / uViewportW\<close> (\<open>uViewportH\<close> for y), and passes the
  depth through as \<open>clip.z / clip.w\<close>. The half-width of the quad is therefore
  \<open>uRadiusPx * 2 / uViewportW\<close> and its half-height \<open>uRadiusPx * 2 / uViewportH\<close>, and the
  offset of a vertex from the centre is the same for every projection matrix and every
  particle position.
\<close>
theorem billboard_size_invariance:
  "billboard_positionNode M r vw vh p l =
     \<lparr>v3x = v3x (ndc_of M p) + v3x l * (r * 2 / vw),
      v3y = v3y (ndc_of M p) + v3y l * (r * 2 / vh),
      v3z = v4z (clip_of M p) / v4w (clip_of M p)\<rparr> \<and>
   v3x (billboard_positionNode M r vw vh p (l\<lparr>v3x := 1\<rparr>)) -
     v3x (billboard_positionNode M r vw vh p (l\<lparr>v3x := 0\<rparr>)) = r * 2 / vw \<and>
   v3y (billboard_positionNode M r vw vh p (l\<lparr>v3y := 1\<rparr>)) -
     v3y (billboard_positionNode M r vw vh p (l\<lparr>v3y := 0\<rparr>)) = r * 2 / vh \<and>
   v3x (billboard_positionNode M r vw vh p l) - v3x (ndc_of M p) =
     v3x (billboard_positionNode M' r vw vh p' l) - v3x (ndc_of M' p') \<and>
   v3y (billboard_positionNode M r vw vh p l) - v3y (ndc_of M p) =
     v3y (billboard_positionNode M' r vw vh p' l) - v3y (ndc_of M' p')"
  by (simp add: billboard_eq)

text \<open>The world-space sphere of \<open>src/index.ts\<close> is not of constant size on screen: under the
  same matrix, the same vertex of the sphere is twice as far from the centre for the
  particle at half the depth.\<close>

lemma sphere_size_depends_on_depth:
  "v3x (ndc_of m_persp (sphere_positionNode 1 p_near l_corner)) - v3x (ndc_of m_persp p_near) = 1 \<and>
   v3x (ndc_of m_persp (sphere_positionNode 1 p_far l_corner)) - v3x (ndc_of m_persp p_far) = 1 / 2"
  by (simp add: ndc_of_def clip_of_def mat4_mul_def m_persp_def p_near_def p_far_def
      l_corner_def sphere_positionNode_def Let_def)

section \<open>Instances\<close>

lemma s_demo_fields:
  "renderer s_demo = Some \<lparr>r_size = None, r_disposed = False\<rparr>"
  "scene s_demo = Some [SnowMeshObj 0, FogMeshObj]"
  "computeInit s_demo = Some k_zero"
  "posBuffer s_demo = Some 0"
  "particleCount s_demo = Count 100000"
  "allocated s_demo = 2"
  "initRan s_demo = False"
  "initialized s_demo = True"
  "submitted s_demo = []"
  unfolding s_demo_def init_ok
  by (simp_all add: buildParticleSystem_def buildFogOverlay_def
      SnowGPU_new_def Let_def k_zero_def randUint_def rnd_zero_def DEFAULT_PARTICLE_COUNT_def)

lemma hash_demo_unit: "0 \<le> hash_demo w \<and> hash_demo w < 1"
proof -
  have "unat w mod 4 < 4" by simp
  then have "real (unat w mod 4) < 4" by linarith
  then show ?thesis by (simp add: hash_demo_def)
qed

lemma rnd_demo_unit: "0 \<le> rnd_demo j \<and> rnd_demo j < 1"
proof -
  have "j mod 7 < 7" by simp
  then have "real (j mod 7) < 7" by linarith
  then show ?thesis by (simp add: rnd_demo_def)
qed

lemma s_demo_inv: "gpu_inv s_demo"
  unfolding s_demo_def by (rule gpu_inv_init)

lemma newCount_values:
  "newCount (Finite (9 / 19)) = Count 100000" "newCount (Finite (1 / 2)) = Count 105000"
  "newCount (Finite 1) = Count 200000" "newCount NaN = NaNCount"
  by (simp_all add: newCount_def MIN_PARTICLE_COUNT_def MAX_PARTICLE_COUNT_def)

theorem spawn_assignment_witness:
  "computeInit (buildParticleSystem rnd_demo s_demo) = Some ki_demo \<and>
   initSalts ki_demo = [0, 2097151, 4194303, 6291455] \<and>
   fst (dispatchInit hash_demo ki_demo uniforms0 (ps_demo, vs_demo)) ! 0 =
     \<lparr>v3x = 99 / 200, v3y = 201 / 400, v3z = 3 / 1600\<rparr> \<and>
   snd (dispatchInit hash_demo ki_demo uniforms0 (ps_demo, vs_demo)) ! 0 =
     \<lparr>v4x = 0, v4y = 0, v4z = 7 / 8, v4w = 3 / 4\<rparr>"
proof -
  have built: "computeInit (buildParticleSystem rnd_demo s_demo) = Some ki_demo"
    by (simp add: buildParticleSystem_built [OF s_demo_fields(1,2)] s_demo_fields ki_demo_def
        randUint_def rnd_demo_def)
  have idx: "0 < ci_count ki_demo" "0 < length ps_demo" "length vs_demo = length ps_demo"
    by (simp_all add: ki_demo_def ps_demo_def vs_demo_def)
  have r: "initRands hash_demo ki_demo 0 = [0, 3 / 4, 3 / 4, 3 / 4]"
    by (simp add: initRands_def ki_demo_def hash_demo_def)
  from spawn_assignment [of hash_demo rnd_demo, OF hash_demo_unit rnd_demo_unit
      s_demo_fields(1,2) built idx, of uniforms0]
  show ?thesis
    using built by (simp add: r uniforms0_def randUint_def rnd_demo_def)
qed

theorem update_keeps_velocity_witness:
  "snd (dispatchUpdate hash_demo k_demo u_demo (ps_demo, vs_demo)) = vs_demo \<and>
   velMem (frame hash_demo m_persp s_demo) = velMem s_demo"
  using update_keeps_velocity [of hash_demo k_demo u_demo 0 "ps_demo ! 0" "vs_demo ! 0"
      ps_demo vs_demo m_persp s_demo "[]"]
  by simp

theorem setDensity_idempotent_witness:
  "strict_eq (newCount (Finite (9 / 19))) (particleCount s_demo) \<and>
   setDensity rnd_demo (Finite (9 / 19)) s_demo = s_demo \<and>
   setDensity rnd_zero (Finite (1 / 2)) (setDensity rnd_demo (Finite (1 / 2)) s_demo) =
     setDensity rnd_demo (Finite (1 / 2)) s_demo \<and>
   setDensity rnd_zero PosInfinity (setDensity rnd_demo PosInfinity s_demo) =
     setDensity rnd_demo PosInfinity s_demo"
  using setDensity_idempotent [of "Finite (9 / 19)" s_demo rnd_demo rnd_demo]
        setDensity_idempotent [of "Finite (1 / 2)" s_demo rnd_demo rnd_zero]
        setDensity_idempotent [of PosInfinity s_demo rnd_demo rnd_zero]
  by (simp add: newCount_values s_demo_fields)

theorem density_rebuild_witness:
  "gpu_inv s_demo \<and> posBuffer s_demo = Some 0 \<and> newCount (Finite (1 / 2)) = Count 105000 \<and>
   particleCount s_demo = Count 100000 \<and>
   particleCount (setDensity rnd_demo (Finite (1 / 2)) s_demo) = Count 105000 \<and>
   posBuffer (setDensity rnd_demo (Finite (1 / 2)) s_demo) = Some 2 \<and>
   velBuffer (setDensity rnd_demo (Finite (1 / 2)) s_demo) = Some 3 \<and>
   set (buffer_refs (setDensity rnd_demo (Finite (1 / 2)) s_demo)) = {2, 3} \<and>
   list_all (\<lambda>a. 2 \<le> a)
     (buffer_refs (calls hash_demo cs_demo (setDensity rnd_demo (Finite (1 / 2)) s_demo))) \<and>
   posMem (setDensity rnd_demo (Finite (1 / 2)) s_demo) 2 = Some (replicate 105000 zero3) \<and>
   initRan (setDensity rnd_demo (Finite (1 / 2)) s_demo) = False \<and>
   submitted (runInit hash_demo (setDensity rnd_demo (Finite (1 / 2)) s_demo)) =
     [ComputeInitCmd 2]"
  using density_rebuild [where rnd = rnd_demo and x = "1 / 2" and d = "Finite (1 / 2)"
      and s = s_demo and p = 0 and hash = hash_demo and cs = cs_demo]
    s_demo_inv
  by (simp add: newCount_values s_demo_fields MIN_PARTICLE_COUNT_def MAX_PARTICLE_COUNT_def)

theorem capability_failure_inert_witness:
  "init NoNavigatorGpu rnd_zero SnowGPU_new = (SnowGPU_new, Inr False) \<and>
   posBuffer SnowGPU_new = None \<and>
   frame hash_demo m_persp SnowGPU_new = SnowGPU_new \<and>
   calls hash_demo [CallRunInit, CallFrame m_persp, CallRunInit, CallFrame m_persp] SnowGPU_new
     = SnowGPU_new \<and>
   renders hash_demo [inp_demo, inp_demo, inp_demo] (onAdd NoNavigatorGpu rnd_zero (new_layer options_default))
     = onAdd NoNavigatorGpu rnd_zero (new_layer options_default)"
proof -
  have fail: "NoNavigatorGpu \<noteq> GpuAvailable" by simp
  have res: "init NoNavigatorGpu rnd_zero SnowGPU_new = (SnowGPU_new, Inr False)"
    by (simp add: init_def)
  from capability_failure_inert [OF fail res, of hash_demo m_persp
      "[CallRunInit, CallFrame m_persp, CallRunInit, CallFrame m_persp]"
      "new_layer options_default" "[inp_demo, inp_demo, inp_demo]"]
  show ?thesis using res by simp
qed

theorem wind_conversion_witness:
  "uWindX (uni (updateWind 0 50 13 60 s_demo)) = 0 \<and>
   uWindY (uni (updateWind 0 50 13 60 s_demo)) = 50 / (512 * 8192) / 60"
  using wind_conversion [of 0 50 13 60 s_demo] by simp

theorem billboard_size_invariance_witness:
  "billboard_positionNode m_persp 4 800 600 p_near l_corner =
     \<lparr>v3x = 0.51, v3y = 0.25 - 1 / 75, v3z = 1\<rparr> \<and>
   billboard_positionNode m_persp 4 800 600 p_far l_corner =
     \<lparr>v3x = 0.26, v3y = 0.125 - 1 / 75, v3z = 1\<rparr>"
  using billboard_size_invariance [of m_persp 4 800 600 p_near l_corner m_persp p_far]
        billboard_size_invariance [of m_persp 4 800 600 p_far l_corner m_persp p_near]
  by (simp add: ndc_of_def clip_of_def mat4_mul_def m_persp_def p_near_def p_far_def
      l_corner_def Let_def)

theorem spawn_once_per_allocation_witness:
  "gpu_inv s_demo \<and> posBuffer s_demo = Some 0 \<and> initRan s_demo = False \<and>
   list_all (keeps_count (particleCount s_demo)) cs_demo \<and>
   submitted (runInit hash_demo s_demo) = [ComputeInitCmd 0] \<and>
   spawns (calls hash_demo cs_demo s_demo) = 1 \<and>
   initRan (calls hash_demo cs_demo s_demo) \<and>
   posBuffer (calls hash_demo cs_demo s_demo) = Some 0 \<and>
   changes_count (particleCount s_demo) (CallSetDensity rnd_demo (Finite 1)) \<and>
   initRan (call hash_demo (CallSetDensity rnd_demo (Finite 1)) (calls hash_demo cs_demo s_demo)) = False \<and>
   l_map L_demo \<and>
   map_option spawns (l_gpu (renders hash_demo [inp_demo, inp_demo, inp_demo] L_demo)) = Some 1"
proof -
  have keep: "list_all (keeps_count (particleCount s_demo)) cs_demo"
    by (simp add: cs_demo_def keeps_count_def newCount_values s_demo_fields)
  have ch: "changes_count (particleCount s_demo) (CallSetDensity rnd_demo (Finite 1))"
    by (simp add: newCount_values s_demo_fields)
  have sp: "spawns s_demo = 0" by (simp add: spawns_def s_demo_fields)
  have ex: "list_ex is_runInit cs_demo" by (simp add: cs_demo_def)
  note a = spawn_once_per_allocation [OF s_demo_inv s_demo_fields(4,7) keep,
      of hash_demo "CallSetDensity rnd_demo (Finite 1)" L_demo "[]"]
  from onAdd_ok [of rnd_zero "new_layer options_default"] obtain g p
    where g: "l_gpu L_demo = Some g" "l_map L_demo" "gpu_inv g" "posBuffer g = Some p"
      "initRan g = False" "ready g" "spawns g = 0"
    unfolding L_demo_def by blast
  have nil: "list_all (keeps_count (particleCount g)) []" by simp
  note b = spawn_once_per_allocation [OF g(3,4,5) nil,
      of hash_demo CallRunInit L_demo "[inp_demo, inp_demo, inp_demo]"]
  show ?thesis
    using a b s_demo_inv keep ch sp ex g by (simp add: s_demo_fields)
qed

text \<open>At NaN the mapped count is NaN, which is \<open>===\<close> to no count, so that on a built
  particle system every call rebuilds.\<close>

lemma setDensity_NaN_rebuilds:
  assumes "gpu_inv s" "posBuffer s = Some p"
  shows "posBuffer (setDensity rnd NaN s) = Some (allocated s)"
    and "allocated (setDensity rnd NaN s) = allocated s + 2"
    and "particleCount (setDensity rnd NaN s) = NaNCount"
proof -
  have diff: "strict_eq (newCount NaN) (particleCount s) = False"
    by (simp add: newCount_values)
  show "posBuffer (setDensity rnd NaN s) = Some (allocated s)"
    and "allocated (setDensity rnd NaN s) = allocated s + 2"
    by (rule setDensity_changed [OF assms diff])+
  show "particleCount (setDensity rnd NaN s) = NaNCount"
    by (simp add: setDensity_particleCount newCount_values)
qed

text \<open>
  Claim C10, as stated, fails at the density NaN. On the object that a successful \<open>init\<close>
  leaves, the first \<open>setDensity(NaN)\<close> sets the count to NaN and rebuilds, with the new
  position buffer at address 2. The mapped count of a second \<open>setDensity(NaN)\<close> is the
  current count, NaN, and yet the call rebuilds again, with the position buffer at address
  4: two calls do not leave the object that one call leaves.
\<close>
theorem setDensity_NaN_counterexample:
  "particleCount (setDensity rnd_zero NaN s_demo) = newCount NaN \<and>
   posBuffer (setDensity rnd_zero NaN s_demo) = Some 2 \<and>
   posBuffer (setDensity rnd_zero NaN (setDensity rnd_zero NaN s_demo)) = Some 4 \<and>
   setDensity rnd_zero NaN (setDensity rnd_zero NaN s_demo) \<noteq> setDensity rnd_zero NaN s_demo"
proof -
  let ?s1 = "setDensity rnd_zero NaN s_demo"
  note one = setDensity_NaN_rebuilds [OF s_demo_inv s_demo_fields(4), of rnd_zero]
  have inv1: "gpu_inv ?s1" by (rule gpu_inv_setDensity [OF s_demo_inv])
  have p1: "posBuffer ?s1 = Some 2" using one(1) by (simp add: s_demo_fields)
  note two = setDensity_NaN_rebuilds [OF inv1 p1, of rnd_zero]
  have p2: "posBuffer (setDensity rnd_zero NaN ?s1) = Some 4"
    using two(1) one(2) by (simp add: s_demo_fields)
  have "setDensity rnd_zero NaN ?s1 \<noteq> ?s1"
  proof
    assume "setDensity rnd_zero NaN ?s1 = ?s1"
    then have "posBuffer (setDensity rnd_zero NaN ?s1) = posBuffer ?s1" by simp
    with p1 p2 show False by simp
  qed
  then show ?thesis
    using p1 p2 one(3) by (simp add: newCount_values)
qed

text \<open>Whatever the draws, the first value is the hash of the bare index, so that no
  pipeline has four odd salts.\<close>

lemma unsalted_first_draw: "hd (initSalts k) = 0 \<and> \<not> four_distinct_odd_salts k"
  by (simp add: initSalts_def four_distinct_odd_salts_def)

text \<open>
  Claim C4, as stated, fails. When every draw of \<open>Math.random\<close> is 0, the spawn pipeline that
  \<open>init\<close> builds adds the salts 0, 0, 0 and, for the first value, nothing: the salts are
  neither distinct nor odd, and the four hashed values of a particle are one and the same.
\<close>
theorem spawn_salts_counterexample:
  "computeInit (fst (init GpuAvailable rnd_zero SnowGPU_new)) = Some k_zero \<and>
   initSalts k_zero = [0, 0, 0, 0] \<and>
   \<not> four_distinct_odd_salts k_zero \<and>
   initRands hash_demo k_zero 7 = [3 / 4, 3 / 4, 3 / 4, 3 / 4]"
  using s_demo_fields(3)
  by (simp add: s_demo_def four_distinct_odd_salts_def initSalts_def initRands_def k_zero_def
      hash_demo_def)

end
